theory Spec2Isabelle
  imports Main "HOL-Library.Word"
begin

unbundle bit_operations_syntax

section \<open>The Corsair Commander Core XT driver (corsair-ccxt.c)\<close>

text \<open>
  A shallow embedding of the protocol engine of \<^verbatim>\<open>corsair-ccxt.c\<close>: the command
  encoder, the transport exchange, the endpoint transactions, the response decoders and
  the hwmon facade. C \<^verbatim>\<open>u8\<close> is \<open>8 word\<close>; \<^verbatim>\<open>int\<close> and \<^verbatim>\<open>long\<close> values are
  \<open>int\<close> (no computation of the driver leaves the range of its C type: every
  multiplication is applied to a byte or to a value already checked to lie in 0..255);
  a buffer is a list of bytes; a function that mutates \<^verbatim>\<open>struct ccxt_device\<close> takes the
  record and returns it updated, together with the C return value.
\<close>

subsection \<open>Constants\<close>

type_synonym u8 = "8 word"
type_synonym u16 = "16 word"

definition NUM_FANS :: nat where "NUM_FANS = 6"
definition NUM_TEMP_SENSORS :: nat where "NUM_TEMP_SENSORS = 2"
definition OUT_BUFFER_SIZE :: nat where "OUT_BUFFER_SIZE = 385"
definition IN_BUFFER_SIZE :: nat where "IN_BUFFER_SIZE = 384"
definition LABEL_LENGTH :: nat where "LABEL_LENGTH = 11"
definition CMD_HEADER_SIZE :: nat where "CMD_HEADER_SIZE = 2"
definition WRITE_DATA_HEADER_SIZE :: nat where "WRITE_DATA_HEADER_SIZE = 4"
definition FAN_CNT_INDEX :: nat where "FAN_CNT_INDEX = 5"
definition FAN_DATA_OFFSET :: nat where "FAN_DATA_OFFSET = 6"
definition TEMP_CNT_INDEX :: nat where "TEMP_CNT_INDEX = 5"
definition TEMP_DATA_OFFSET :: nat where "TEMP_DATA_OFFSET = 6"
definition FAN_STATE_OK :: u8 where "FAN_STATE_OK = 0x07"

definition cmd_get_firmware :: "u8 list" where "cmd_get_firmware = [0x02, 0x13]"
definition cmd_hardware_mode :: "u8 list" where "cmd_hardware_mode = [0x01, 0x03, 0x00, 0x01]"
definition cmd_software_mode :: "u8 list" where "cmd_software_mode = [0x01, 0x03, 0x00, 0x02]"
definition cmd_open_endpoint :: "u8 list" where "cmd_open_endpoint = [0x0d, 0x01]"
definition cmd_close_endpoint :: "u8 list" where "cmd_close_endpoint = [0x05, 0x01, 0x01]"
definition cmd_write :: "u8 list" where "cmd_write = [0x06, 0x01]"
definition cmd_read :: "u8 list" where "cmd_read = [0x08, 0x01]"

definition endpoint_fan_state :: u8 where "endpoint_fan_state = 0x17"
definition endpoint_fan_pwm :: u8 where "endpoint_fan_pwm = 0x18"
definition endpoint_get_fans :: u8 where "endpoint_get_fans = 0x1a"
definition endpoint_get_temperatures :: u8 where "endpoint_get_temperatures = 0x21"

definition data_type_set_speed :: "u8 list" where "data_type_set_speed = [0x07, 0x00]"

text \<open>
  The error numbers come from the kernel's \<^verbatim>\<open>errno.h\<close>, which is not part of the
  repository; they have the values of \<^verbatim>\<open>asm-generic/errno-base.h\<close> and
  \<^verbatim>\<open>asm-generic/errno.h\<close>.
\<close>

definition EIO :: int where "EIO = 5"
definition EINVAL :: int where "EINVAL = 22"
definition ENODATA :: int where "ENODATA = 61"
definition EPROTO :: int where "EPROTO = 71"
definition EOPNOTSUPP :: int where "EOPNOTSUPP = 95"
definition ETIMEDOUT :: int where "ETIMEDOUT = 110"

subsection \<open>Device state\<close>

record firmware_version =
  major :: u8
  minor :: u8
  patch :: u16

text \<open>
  \<^verbatim>\<open>struct ccxt_device\<close>. The three buffers are the arrays the pointers refer to
  (allocated once in \<^verbatim>\<open>ccxt_probe\<close> with 385, 384 and 384 bytes). The two bitmaps
  are one \<^verbatim>\<open>unsigned long\<close> each. The locks and the completion are not state of
  the sequential model. The field \<open>sent\<close> is not in the C struct: it logs the output
  reports handed to \<^verbatim>\<open>hid_hw_output_report\<close>, newest first, so that theorems can
  speak about what was transmitted.
\<close>

record ccxt_device =
  cmd_buffer :: "u8 list"
  buffer :: "u8 list"
  data_buffer :: "u8 list"
  buffer_recv_size :: int
  data_buffer_recv_size :: int
  target :: "int list"
  temp_cnct :: "64 word"
  fan_cnct :: "64 word"
  fan_label :: "string list"
  firmware_ver :: firmware_version
  bootloader_ver :: "u8 list"
  sent :: "u8 list list"

text \<open>The shape \<^verbatim>\<open>ccxt_probe\<close> gives the device: the sizes of the arrays.\<close>

definition ccxt_wf :: "ccxt_device \<Rightarrow> bool" where
  "ccxt_wf ccxt \<longleftrightarrow>
     length (cmd_buffer ccxt) = OUT_BUFFER_SIZE \<and>
     length (buffer ccxt) = IN_BUFFER_SIZE \<and>
     length (data_buffer ccxt) = IN_BUFFER_SIZE \<and>
     length (target ccxt) = NUM_FANS \<and>
     length (fan_label ccxt) = NUM_FANS"

text \<open>
  A device as \<^verbatim>\<open>devm_kzalloc\<close> leaves it, with all three buffers holding zeros
  (\<^verbatim>\<open>devm_kmalloc\<close> leaves their contents open; zeros are one possible content).
\<close>

definition ccxt_zero :: ccxt_device where
  "ccxt_zero =
     \<lparr> cmd_buffer = replicate 385 0, buffer = replicate 384 0,
       data_buffer = replicate 384 0, buffer_recv_size = 0, data_buffer_recv_size = 0,
       target = replicate 6 0, temp_cnct = 0, fan_cnct = 0,
       fan_label = replicate 6 [], firmware_ver = \<lparr> major = 0, minor = 0, patch = 0 \<rparr>,
       bootloader_ver = [0, 0], sent = [] \<rparr>"

subsection \<open>Memory primitives\<close>

text \<open>
  \<^verbatim>\<open>memset(dst, c, n)\<close> and \<^verbatim>\<open>memcpy(dst + off, src, n)\<close> on a buffer held as a list.
  C leaves a copy that runs past the end of the destination or the source undefined;
  the theorems below are stated for copies that fit.
\<close>

definition memset :: "u8 list \<Rightarrow> u8 \<Rightarrow> nat \<Rightarrow> u8 list" where
  "memset dst c n = replicate n c @ drop n dst"

definition memcpy :: "u8 list \<Rightarrow> nat \<Rightarrow> u8 list \<Rightarrow> nat \<Rightarrow> u8 list" where
  "memcpy dst off src n = take off dst @ take n src @ drop (off + n) dst"

subsection \<open>Command encoder\<close>

definition prepare_cmd :: "ccxt_device \<Rightarrow> u8 list \<Rightarrow> int \<times> ccxt_device" where
  "prepare_cmd ccxt command =
     (let command_len = length command;
          b0 = memset (cmd_buffer ccxt) 0x00 OUT_BUFFER_SIZE;
          b1 = b0[0 := 0x00];
          b2 = b1[1 := 0x08];
          b3 = memcpy b2 CMD_HEADER_SIZE command command_len
      in (int (CMD_HEADER_SIZE + command_len), ccxt\<lparr>cmd_buffer := b3\<rparr>))"

definition prepare_endpoint_cmd :: "ccxt_device \<Rightarrow> u8 list \<Rightarrow> u8 \<Rightarrow> int \<times> ccxt_device" where
  "prepare_endpoint_cmd ccxt command endpoint =
     (let (ret, c1) = prepare_cmd ccxt command
      in (ret + 1, c1\<lparr>cmd_buffer := (cmd_buffer c1)[nat ret := endpoint]\<rparr>))"

subsection \<open>Transport exchange\<close>

text \<open>
  The HID transport is outside the driver. It is a parameter of the model: a function
  from the output reports handed over so far (newest first, the current one included) to
  the outcome of the exchange: the return value of \<^verbatim>\<open>hid_hw_output_report\<close>, and the
  input report that \<^verbatim>\<open>ccxt_raw_event\<close> captures before the 300 ms wait ends, if any.
\<close>

type_synonym hid_transport = "u8 list list \<Rightarrow> int \<times> u8 list option"

definition ccxt_get_errno :: "ccxt_device \<Rightarrow> int" where
  "ccxt_get_errno ccxt =
     (let status = buffer ccxt ! 0
      in if status = 0x00 then 0
         else if status = 0x01 then - EOPNOTSUPP
         else if status = 0x10 then - EINVAL
         else if status = 0x11 \<or> status = 0x12 then - ENODATA
         else - EIO)"

text \<open>The capturing branch of \<^verbatim>\<open>ccxt_raw_event\<close>; its \<^verbatim>\<open>size\<close> is the length of \<open>data\<close>.\<close>

definition ccxt_raw_event :: "ccxt_device \<Rightarrow> u8 list \<Rightarrow> ccxt_device" where
  "ccxt_raw_event ccxt data =
     (let sz = length data
      in ccxt\<lparr>buffer := memcpy (buffer ccxt) 0 data (min IN_BUFFER_SIZE sz),
              buffer_recv_size := int sz\<rparr>)"

definition send_usb :: "hid_transport \<Rightarrow> ccxt_device \<Rightarrow> int \<times> ccxt_device" where
  "send_usb hid ccxt =
     (let c1 = ccxt\<lparr>sent := take OUT_BUFFER_SIZE (cmd_buffer ccxt) # sent ccxt\<rparr>;
          (ret, report) = hid (sent c1)
      in if ret < 0 then (ret, c1)
         else (case report of
                 None \<Rightarrow> (- ETIMEDOUT, c1)
               | Some data \<Rightarrow>
                   (let c2 = ccxt_raw_event c1 data
                    in if buffer_recv_size c2 \<noteq> int IN_BUFFER_SIZE then (- EPROTO, c2)
                       else (ccxt_get_errno c2, c2))))"

definition set_hardware_mode :: "hid_transport \<Rightarrow> ccxt_device \<Rightarrow> int \<times> ccxt_device" where
  "set_hardware_mode hid ccxt =
     (let (used, c1) = prepare_cmd ccxt cmd_hardware_mode in send_usb hid c1)"

definition set_software_mode :: "hid_transport \<Rightarrow> ccxt_device \<Rightarrow> int \<times> ccxt_device" where
  "set_software_mode hid ccxt =
     (let (used, c1) = prepare_cmd ccxt cmd_software_mode in send_usb hid c1)"

definition get_fw_version :: "hid_transport \<Rightarrow> ccxt_device \<Rightarrow> int \<times> ccxt_device" where
  "get_fw_version hid ccxt =
     (let (used, c1) = prepare_cmd ccxt cmd_get_firmware;
          (ret, c2) = send_usb hid c1
      in if ret \<noteq> 0 then (ret, c2)
         else (ret, c2\<lparr>firmware_ver :=
                 \<lparr> major = buffer c2 ! 3, minor = buffer c2 ! 4,
                   patch = ucast (buffer c2 ! 5) OR push_bit 8 (ucast (buffer c2 ! 6)) \<rparr>\<rparr>))"

definition get_bl_version :: "ccxt_device \<Rightarrow> int" where
  "get_bl_version ccxt = - 1"

subsection \<open>Endpoint transactions\<close>

definition read_data :: "hid_transport \<Rightarrow> ccxt_device \<Rightarrow> u8 \<Rightarrow> int \<times> ccxt_device" where
  "read_data hid ccxt endpoint =
     (let (used, c1) = prepare_endpoint_cmd ccxt cmd_close_endpoint endpoint;
          (ret, c2) = send_usb hid c1
      in if ret \<noteq> 0 then (ret, c2)
         else
          (let (used, c3) = prepare_endpoint_cmd c2 cmd_open_endpoint endpoint;
               (ret, c4) = send_usb hid c3
           in if ret \<noteq> 0 then (ret, c4)
              else
               (let (used, c5) = prepare_endpoint_cmd c4 cmd_read endpoint;
                    (ret, c6) = send_usb hid c5
                in if ret \<noteq> 0 then (ret, c6)
                   else
                    (let c7 = c6\<lparr>data_buffer :=
                                    memcpy (data_buffer c6) 0 (buffer c6) IN_BUFFER_SIZE,
                                  data_buffer_recv_size := buffer_recv_size c6\<rparr>;
                         (used, c8) = prepare_endpoint_cmd c7 cmd_close_endpoint endpoint
                     in send_usb hid c8))))"

text \<open>
  The block of \<^verbatim>\<open>write_data\<close> between the open exchange and the write exchange: it
  encodes \<^verbatim>\<open>cmd_write\<close>, then stores the length byte of the 4-byte write header, the
  data-type tag and the payload behind it.
\<close>

definition prepare_write_cmd :: "ccxt_device \<Rightarrow> u8 list \<Rightarrow> u8 list \<Rightarrow> ccxt_device" where
  "prepare_write_cmd ccxt data_type data =
     (let data_type_size = length data_type;
          data_size = length data;
          (ret, c1) = prepare_cmd ccxt cmd_write;
          writer_header_dst = nat ret;
          data_type_dst = writer_header_dst + WRITE_DATA_HEADER_SIZE;
          data_dst = data_type_dst + data_type_size;
          b1 = (cmd_buffer c1)[writer_header_dst := of_nat (data_type_size + data_size)];
          b2 = memcpy b1 data_type_dst data_type data_type_size;
          b3 = memcpy b2 data_dst data data_size
      in c1\<lparr>cmd_buffer := b3\<rparr>)"

definition write_data ::
  "hid_transport \<Rightarrow> ccxt_device \<Rightarrow> u8 \<Rightarrow> u8 list \<Rightarrow> u8 list \<Rightarrow> int \<times> ccxt_device" where
  "write_data hid ccxt endpoint data_type data =
     (let (used, c1) = prepare_endpoint_cmd ccxt cmd_close_endpoint endpoint;
          (ret, c2) = send_usb hid c1
      in if ret \<noteq> 0 then (ret, c2)
         else
          (let (used, c3) = prepare_endpoint_cmd c2 cmd_open_endpoint endpoint;
               (ret, c4) = send_usb hid c3
           in if ret \<noteq> 0 then (ret, c4)
              else
               (let c5 = prepare_write_cmd c4 data_type data;
                    (ret, c6) = send_usb hid c5
                in if ret \<noteq> 0 then (ret, c6)
                   else
                    (let c7 = c6\<lparr>data_buffer :=
                                    memcpy (data_buffer c6) 0 (buffer c6) IN_BUFFER_SIZE\<rparr>;
                         (used, c8) = prepare_endpoint_cmd c7 cmd_close_endpoint endpoint
                     in send_usb hid c8))))"

subsection \<open>Response decoders\<close>

text \<open>
  The bitmaps have fewer than 64 bits, so each is the single word \<open>addr[0]\<close>; the bit
  numbers the driver uses are channel numbers below 6.
\<close>

definition set_bit :: "nat \<Rightarrow> 64 word \<Rightarrow> 64 word" where
  "set_bit nr addr = addr OR push_bit (nr mod 64) 1"

definition test_bit :: "nat \<Rightarrow> 64 word \<Rightarrow> bool" where
  "test_bit nr addr = bit addr nr"

text \<open>
  The kernel's \<^verbatim>\<open>scnprintf(buf, size, "fan%d", n)\<close> (the kernel's, not the stub of the
  debug tool's \<^verbatim>\<open>polyfills.h\<close>): the decimal digits of \<open>n\<close> after \<open>fan\<close>, cut to
  \<open>sz - 1\<close> characters.
\<close>

fun dec_nat :: "nat \<Rightarrow> string" where
  "dec_nat n = (if n < 10 then [char_of (48 + n)]
                else dec_nat (n div 10) @ [char_of (48 + n mod 10)])"

declare dec_nat.simps [simp del]

definition dec_int :: "int \<Rightarrow> string" where
  "dec_int n = (if n < 0 then CHR ''-'' # dec_nat (nat (- n)) else dec_nat (nat n))"

definition scnprintf_fan :: "nat \<Rightarrow> int \<Rightarrow> string" where
  "scnprintf_fan sz n = take (sz - 1) (''fan'' @ dec_int n)"

text \<open>C99 division truncates towards zero; \<open>div\<close> on \<open>int\<close> rounds down.\<close>

definition c_div :: "int \<Rightarrow> int \<Rightarrow> int" where
  "c_div a b = sgn a * sgn b * (\<bar>a\<bar> div \<bar>b\<bar>)"

text \<open>
  \<^verbatim>\<open>DIV_ROUND_CLOSEST\<close> at signed operand types (\<^verbatim>\<open>long\<close> and \<^verbatim>\<open>int\<close> in the
  driver), where the two \<^verbatim>\<open>((typeof(x))-1) > 0\<close> tests are false.
\<close>

definition DIV_ROUND_CLOSEST :: "int \<Rightarrow> int \<Rightarrow> int" where
  "DIV_ROUND_CLOSEST x d =
     (if (x > 0) = (d > 0) then c_div (x + c_div d 2) d else c_div (x - c_div d 2) d)"

text \<open>One iteration of the loop of \<^verbatim>\<open>get_fan_cnct\<close>.\<close>

definition get_fan_cnct_body :: "nat \<Rightarrow> ccxt_device \<Rightarrow> ccxt_device" where
  "get_fan_cnct_body channel ccxt =
     (let state = data_buffer ccxt ! (FAN_DATA_OFFSET + channel)
      in if state \<noteq> FAN_STATE_OK then ccxt
         else ccxt\<lparr>fan_cnct := set_bit channel (fan_cnct ccxt),
                   target := (target ccxt)[channel := - ENODATA],
                   fan_label := (fan_label ccxt)
                     [channel := scnprintf_fan LABEL_LENGTH (int channel + 1)]\<rparr>)"

function get_fan_cnct_loop :: "nat \<Rightarrow> nat \<Rightarrow> ccxt_device \<Rightarrow> ccxt_device" where
  "get_fan_cnct_loop channel limit ccxt =
     (if channel < limit
      then get_fan_cnct_loop (Suc channel) limit (get_fan_cnct_body channel ccxt)
      else ccxt)"
  by pat_completeness auto
termination
  by (relation "measure (\<lambda>(channel, limit, ccxt). limit - channel)") auto

declare get_fan_cnct_loop.simps [simp del]

definition get_fan_cnct :: "hid_transport \<Rightarrow> ccxt_device \<Rightarrow> int \<times> ccxt_device" where
  "get_fan_cnct hid ccxt =
     (let (ret, c1) = read_data hid ccxt endpoint_get_fans
      in if ret \<noteq> 0 then (ret, c1)
         else
          (let num_fans = unat (data_buffer c1 ! FAN_CNT_INDEX)
           in (0, get_fan_cnct_loop 0 (min num_fans NUM_FANS) c1)))"

text \<open>
  The loop of \<^verbatim>\<open>get_temp_cnct\<close> reads the state byte of each channel and does nothing
  with it: the marking step is commented out.
\<close>

function get_temp_cnct_loop :: "nat \<Rightarrow> nat \<Rightarrow> ccxt_device \<Rightarrow> ccxt_device" where
  "get_temp_cnct_loop channel limit ccxt =
     (if channel < limit
      then (let state = data_buffer ccxt ! (TEMP_DATA_OFFSET + channel)
            in get_temp_cnct_loop (Suc channel) limit ccxt)
      else ccxt)"
  by pat_completeness auto
termination
  by (relation "measure (\<lambda>(channel, limit, ccxt). limit - channel)") auto

declare get_temp_cnct_loop.simps [simp del]

definition get_temp_cnct :: "hid_transport \<Rightarrow> ccxt_device \<Rightarrow> int \<times> ccxt_device" where
  "get_temp_cnct hid ccxt =
     (let (ret, c1) = read_data hid ccxt endpoint_get_temperatures
      in if ret \<noteq> 0 then (ret, c1)
         else
          (let num_sensors = unat (data_buffer c1 ! TEMP_CNT_INDEX)
           in (- 1, get_temp_cnct_loop 0 (min num_sensors NUM_TEMP_SENSORS) c1)))"

text \<open>
  The decoders return the C return value, the value stored through \<^verbatim>\<open>*val\<close>
  (\<open>None\<close> when nothing is stored) and the device. The channel is the index the hwmon
  core passes, which is never negative.
\<close>

definition get_fan_rpm ::
  "hid_transport \<Rightarrow> ccxt_device \<Rightarrow> nat \<Rightarrow> int \<times> int option \<times> ccxt_device" where
  "get_fan_rpm hid ccxt channel =
     (let (ret, c1) = read_data hid ccxt endpoint_fan_state
      in if ret \<noteq> 0 then (ret, None, c1)
         else
          (let num_fans = unat (data_buffer c1 ! FAN_CNT_INDEX)
           in if channel \<ge> min num_fans NUM_FANS then (- EINVAL, None, c1)
              else
               (let data_index = FAN_DATA_OFFSET + channel * 2;
                    raw = (ucast (data_buffer c1 ! data_index) OR
                           push_bit 8 (ucast (data_buffer c1 ! (data_index + 1))) :: u16)
                in (0, Some (sint raw), c1))))"

definition get_fan_pwm ::
  "hid_transport \<Rightarrow> ccxt_device \<Rightarrow> nat \<Rightarrow> int \<times> int option \<times> ccxt_device" where
  "get_fan_pwm hid ccxt channel =
     (let (ret, c1) = read_data hid ccxt endpoint_fan_pwm
      in if ret \<noteq> 0 then (ret, None, c1)
         else
          (let num_fans = unat (data_buffer c1 ! FAN_CNT_INDEX)
           in if channel \<ge> min num_fans NUM_FANS then (- EINVAL, None, c1)
              else
               (let data_index = FAN_DATA_OFFSET + channel * 4;
                    id = uint (data_buffer c1 ! data_index)
                in if id \<noteq> int channel then (- EIO, None, c1)
                   else
                    (let pwm = uint (data_buffer c1 ! (data_index + 2))
                     in (0, Some (DIV_ROUND_CLOSEST (pwm * 255) 100), c1)))))"

subsection \<open>Device state and sensor facade\<close>

definition set_pwm :: "hid_transport \<Rightarrow> ccxt_device \<Rightarrow> nat \<Rightarrow> int \<Rightarrow> int \<times> ccxt_device" where
  "set_pwm hid ccxt channel val =
     (if val < 0 \<or> val > 255 then (- EINVAL, ccxt)
      else
       (let val1 = DIV_ROUND_CLOSEST (val * 100) 255;
            speed_cmd = [1, of_nat channel, 0, word_of_int val1, 0x00];
            (ret, c1) = write_data hid ccxt endpoint_fan_pwm data_type_set_speed speed_cmd
        in if ret = 0 then (ret, c1\<lparr>target := (target c1)[channel := - ENODATA]\<rparr>)
           else (ret, c1)))"

definition clamp_val :: "int \<Rightarrow> int \<Rightarrow> int \<Rightarrow> int" where
  "clamp_val val lo hi = min (max val lo) hi"

definition set_target :: "ccxt_device \<Rightarrow> nat \<Rightarrow> int \<Rightarrow> int \<times> ccxt_device" where
  "set_target ccxt channel val =
     (let val1 = clamp_val val 0 0xFFFF
      in (- 1, ccxt\<lparr>target := (target ccxt)[channel := val1]\<rparr>))"

text \<open>
  The sensor types and attribute numbers of \<^verbatim>\<open>linux/hwmon.h\<close>, which is not part of
  the repository. An attribute is a \<^verbatim>\<open>u32\<close>; the numbers of different sensor types
  overlap, as the kernel's enums do.
\<close>

datatype hwmon_sensor_types =
  hwmon_chip | hwmon_temp | hwmon_in | hwmon_curr | hwmon_power | hwmon_energy
  | hwmon_humidity | hwmon_fan | hwmon_pwm | hwmon_intrusion

definition hwmon_temp_input :: "32 word" where "hwmon_temp_input = 1"
definition hwmon_temp_label :: "32 word" where "hwmon_temp_label = 21"
definition hwmon_fan_input :: "32 word" where "hwmon_fan_input = 1"
definition hwmon_fan_label :: "32 word" where "hwmon_fan_label = 2"
definition hwmon_fan_target :: "32 word" where "hwmon_fan_target = 7"
definition hwmon_pwm_input :: "32 word" where "hwmon_pwm_input = 0"
definition hwmon_in_input :: "32 word" where "hwmon_in_input = 1"

definition ccxt_read_string ::
  "ccxt_device \<Rightarrow> hwmon_sensor_types \<Rightarrow> 32 word \<Rightarrow> nat \<Rightarrow> int \<times> string option" where
  "ccxt_read_string ccxt type attr channel =
     (if type = hwmon_fan \<and> attr = hwmon_fan_label then (0, Some (fan_label ccxt ! channel))
      else (- EOPNOTSUPP, None))"

definition ccxt_read ::
  "hid_transport \<Rightarrow> ccxt_device \<Rightarrow> hwmon_sensor_types \<Rightarrow> 32 word \<Rightarrow> nat
     \<Rightarrow> int \<times> int option \<times> ccxt_device" where
  "ccxt_read hid ccxt type attr channel =
     (case type of
        hwmon_temp \<Rightarrow>
          (if attr = hwmon_temp_input then (0, Some 0, ccxt) else (- EOPNOTSUPP, None, ccxt))
      | hwmon_fan \<Rightarrow>
          (if attr = hwmon_fan_input then
             (let (ret, val, c1) = get_fan_rpm hid ccxt channel
              in if ret < 0 then (ret, val, c1) else (0, val, c1))
           else if attr = hwmon_fan_target then
             (if target ccxt ! channel < 0 then (- ENODATA, None, ccxt)
              else (0, Some (target ccxt ! channel), ccxt))
           else (- EOPNOTSUPP, None, ccxt))
      | hwmon_pwm \<Rightarrow>
          (if attr = hwmon_pwm_input then
             (let (ret, val, c1) = get_fan_pwm hid ccxt channel
              in if ret < 0 then (ret, val, c1) else (0, val, c1))
           else (- EOPNOTSUPP, None, ccxt))
      | hwmon_in \<Rightarrow>
          (if attr = hwmon_in_input then (0, Some 0, ccxt) else (- EOPNOTSUPP, None, ccxt))
      | _ \<Rightarrow> (- EOPNOTSUPP, None, ccxt))"

definition ccxt_write ::
  "hid_transport \<Rightarrow> ccxt_device \<Rightarrow> hwmon_sensor_types \<Rightarrow> 32 word \<Rightarrow> nat \<Rightarrow> int
     \<Rightarrow> int \<times> ccxt_device" where
  "ccxt_write hid ccxt type attr channel val =
     (case type of
        hwmon_pwm \<Rightarrow>
          (if attr = hwmon_pwm_input then set_pwm hid ccxt channel val
           else (- EOPNOTSUPP, ccxt))
      | hwmon_fan \<Rightarrow>
          (if attr = hwmon_fan_target then set_target ccxt channel val
           else (- EOPNOTSUPP, ccxt))
      | _ \<Rightarrow> (- EOPNOTSUPP, ccxt))"

text \<open>The result is the \<^verbatim>\<open>umode_t\<close>: octal 0444 is 292, octal 0644 is 420.\<close>

definition ccxt_is_visible ::
  "ccxt_device \<Rightarrow> hwmon_sensor_types \<Rightarrow> 32 word \<Rightarrow> nat \<Rightarrow> nat" where
  "ccxt_is_visible ccxt type attr channel =
     (case type of
        hwmon_temp \<Rightarrow>
          (if \<not> test_bit channel (temp_cnct ccxt) then 0
           else if attr = hwmon_temp_input then 292
           else if attr = hwmon_temp_label then 292
           else 0)
      | hwmon_fan \<Rightarrow>
          (if \<not> test_bit channel (fan_cnct ccxt) then 0
           else if attr = hwmon_fan_input then 292
           else if attr = hwmon_fan_label then 292
           else if attr = hwmon_fan_target then 420
           else 0)
      | hwmon_pwm \<Rightarrow>
          (if \<not> test_bit channel (fan_cnct ccxt) then 0
           else if attr = hwmon_pwm_input then 420
           else 0)
      | hwmon_in \<Rightarrow> (if attr = hwmon_in_input then 292 else 0)
      | _ \<Rightarrow> 0)"

subsection \<open>Reachable device states\<close>

text \<open>
  \<^verbatim>\<open>ccxt_probe\<close> allocates the device with \<^verbatim>\<open>devm_kzalloc\<close>, so every field of the
  struct starts as zero; the three buffers come from \<^verbatim>\<open>devm_kmalloc\<close> and hold
  anything.
\<close>

definition ccxt_initial :: "ccxt_device \<Rightarrow> bool" where
  "ccxt_initial ccxt \<longleftrightarrow>
     ccxt_wf ccxt \<and> buffer_recv_size ccxt = 0 \<and> data_buffer_recv_size ccxt = 0 \<and>
     target ccxt = replicate NUM_FANS 0 \<and> temp_cnct ccxt = 0 \<and> fan_cnct ccxt = 0 \<and>
     fan_label ccxt = replicate NUM_FANS [] \<and>
     firmware_ver ccxt = \<lparr> major = 0, minor = 0, patch = 0 \<rparr> \<and>
     bootloader_ver ccxt = [0, 0] \<and> sent ccxt = []"

text \<open>
  The entry points through which the kernel reaches the device afterwards: the calls of
  \<^verbatim>\<open>ccxt_probe\<close> and \<^verbatim>\<open>ccxt_remove\<close>, the hwmon callbacks that can write the
  struct, and an input report captured outside an exchange. \<^verbatim>\<open>ccxt_read_string\<close> and
  \<^verbatim>\<open>ccxt_is_visible\<close> only read the struct and \<^verbatim>\<open>get_bl_version\<close> does not
  touch it.
\<close>

datatype ccxt_op =
  Op_set_software_mode
  | Op_set_hardware_mode
  | Op_get_fw_version
  | Op_get_fan_cnct
  | Op_get_temp_cnct
  | Op_read hwmon_sensor_types "32 word" nat
  | Op_write hwmon_sensor_types "32 word" nat int
  | Op_raw_event "u8 list"

fun ccxt_step :: "hid_transport \<Rightarrow> ccxt_op \<Rightarrow> ccxt_device \<Rightarrow> ccxt_device" where
  "ccxt_step hid Op_set_software_mode ccxt = snd (set_software_mode hid ccxt)"
| "ccxt_step hid Op_set_hardware_mode ccxt = snd (set_hardware_mode hid ccxt)"
| "ccxt_step hid Op_get_fw_version ccxt = snd (get_fw_version hid ccxt)"
| "ccxt_step hid Op_get_fan_cnct ccxt = snd (get_fan_cnct hid ccxt)"
| "ccxt_step hid Op_get_temp_cnct ccxt = snd (get_temp_cnct hid ccxt)"
| "ccxt_step hid (Op_read type attr channel) ccxt =
     snd (snd (ccxt_read hid ccxt type attr channel))"
| "ccxt_step hid (Op_write type attr channel val) ccxt =
     snd (ccxt_write hid ccxt type attr channel val)"
| "ccxt_step hid (Op_raw_event data) ccxt = ccxt_raw_event ccxt data"

text \<open>
  The states the driver can be in: an initial state, or the result of an entry point on a
  reachable state, whatever the transport does during it.
\<close>

inductive ccxt_reachable :: "ccxt_device \<Rightarrow> bool" where
  init: "ccxt_initial ccxt \<Longrightarrow> ccxt_reachable ccxt"
| step: "ccxt_reachable ccxt \<Longrightarrow> ccxt_reachable (ccxt_step hid op ccxt)"

subsection \<open>Example transports\<close>

text \<open>
  Concrete transports for evaluating the model: a device that answers every output
  report with the same input report, and one that answers the first \<open>n\<close> reports and
  is silent from then on.
\<close>

definition hid_reply :: "u8 list \<Rightarrow> hid_transport" where
  "hid_reply data log = (0, Some data)"

definition hid_silent_after :: "nat \<Rightarrow> u8 list \<Rightarrow> hid_transport" where
  "hid_silent_after n data log = (if length log \<le> n then (0, Some data) else (0, None))"

text \<open>
  An inventory payload: status 0, three fans reported at offset 5, the state bytes
  \<open>0x07, 0x00, 0x07\<close> from offset 6 on.
\<close>

definition inventory_payload :: "u8 list" where
  "inventory_payload = [0, 0, 0, 0, 0, 3, 7, 0, 7] @ replicate 375 0"

text \<open>
  A fan-pwm payload: status 0, one fan reported, and for channel 0 the echoed id 0 at
  offset 6 and the device-scale value 50 at offset 8.
\<close>

definition pwm_payload :: "u8 list" where
  "pwm_payload = [0, 0, 0, 0, 0, 1, 0, 0, 50] @ replicate 375 0"

text \<open>
  The same fan-pwm payload with the device-scale value \<open>b\<close> for channel 0: what a
  device reports after the speed of fan 0 was set to \<open>b\<close>.
\<close>

definition pwm_reply :: "u8 \<Rightarrow> u8 list" where
  "pwm_reply b = [0, 0, 0, 0, 0, 1, 0, 0, b] @ replicate 375 0"

section \<open>Theorems\<close>

subsection \<open>Command encoder\<close>

lemma length_memset [simp]:
  "n \<le> length dst \<Longrightarrow> length (memset dst c n) = length dst"
  by (simp add: memset_def)

lemma length_memcpy [simp]:
  "off + n \<le> length dst \<Longrightarrow> n \<le> length src \<Longrightarrow> length (memcpy dst off src n) = length dst"
  by (simp add: memcpy_def)

lemma cmd_buffer_prepare_cmd:
  assumes "length (cmd_buffer ccxt) = OUT_BUFFER_SIZE"
    and "CMD_HEADER_SIZE + length command \<le> OUT_BUFFER_SIZE"
  shows "cmd_buffer (snd (prepare_cmd ccxt command)) =
           [0x00, 0x08] @ command @ replicate (OUT_BUFFER_SIZE - 2 - length command) 0"
proof -
  have "(replicate 385 (0::u8))[0 := 0, 1 := 8] = [0, 8] @ replicate 383 0"
    by (simp add: numeral_eq_Suc)
  moreover have "drop (2 + length command) ([0, 8] @ replicate 383 (0::u8)) =
      replicate (383 - length command) 0"
    by simp
  ultimately show ?thesis
    using assms
    by (simp add: prepare_cmd_def Let_def memset_def memcpy_def OUT_BUFFER_SIZE_def
        CMD_HEADER_SIZE_def)
qed

lemma cmd_buffer_prepare_endpoint_cmd:
  assumes "length (cmd_buffer ccxt) = OUT_BUFFER_SIZE"
    and "CMD_HEADER_SIZE + length command < OUT_BUFFER_SIZE"
  shows "cmd_buffer (snd (prepare_endpoint_cmd ccxt command endpoint)) =
           [0x00, 0x08] @ command @ [endpoint]
           @ replicate (OUT_BUFFER_SIZE - 2 - length command - 1) 0"
proof -
  let ?n = "length command"
  have fits: "CMD_HEADER_SIZE + ?n \<le> OUT_BUFFER_SIZE"
    using assms(2) by simp
  have buf: "cmd_buffer (snd (prepare_cmd ccxt command)) =
      [0x00, 0x08] @ command @ replicate (385 - 2 - ?n) 0"
    using cmd_buffer_prepare_cmd [OF assms(1) fits] by (simp add: OUT_BUFFER_SIZE_def)
  have ret: "fst (prepare_cmd ccxt command) = 2 + int ?n"
    by (simp add: prepare_cmd_def Let_def CMD_HEADER_SIZE_def)
  have n: "?n < 383"
    using assms(2) by (simp add: OUT_BUFFER_SIZE_def CMD_HEADER_SIZE_def)
  then have "385 - 2 - ?n = Suc (385 - 2 - ?n - 1)"
    by simp
  then have rep: "replicate (385 - 2 - ?n) (0::u8) = 0 # replicate (385 - 2 - ?n - 1) 0"
    by (metis replicate_Suc)
  have upd: "([0x00, 0x08] @ command @ replicate (385 - 2 - ?n) 0)[2 + ?n := endpoint] =
      [0x00, 0x08] @ command @ [endpoint] @ replicate (385 - 2 - ?n - 1) 0"
    by (simp only: rep) (simp add: list_update_append)
  have "cmd_buffer (snd (prepare_endpoint_cmd ccxt command endpoint)) =
      (cmd_buffer (snd (prepare_cmd ccxt command)))[nat (fst (prepare_cmd ccxt command)) := endpoint]"
    by (simp add: prepare_endpoint_cmd_def split_beta)
  also have "\<dots> = ([0x00, 0x08] @ command @ replicate (385 - 2 - ?n) 0)[2 + ?n := endpoint]"
    by (simp only: buf ret) (simp add: nat_add_distrib)
  finally show ?thesis
    by (simp only: upd OUT_BUFFER_SIZE_def)
qed

text \<open>
  C1. For a command template that fits the frame, \<^verbatim>\<open>prepare_cmd\<close> leaves a frame of exactly
  385 bytes: \<open>0x00, 0x08\<close>, then the template, then zeros, and returns \<open>2 + len\<close>;
  \<^verbatim>\<open>prepare_endpoint_cmd\<close> leaves the same frame with the endpoint byte at position
  \<open>2 + len\<close> and zeros after it, and returns \<open>2 + len + 1\<close>.
\<close>

theorem prepare_cmd_frame:
  assumes "length (cmd_buffer ccxt) = OUT_BUFFER_SIZE"
    and "CMD_HEADER_SIZE + length command < OUT_BUFFER_SIZE"
  shows "length (cmd_buffer (snd (prepare_cmd ccxt command))) = 385
       \<and> cmd_buffer (snd (prepare_cmd ccxt command)) =
           [0x00, 0x08] @ command @ replicate (385 - 2 - length command) 0
       \<and> fst (prepare_cmd ccxt command) = 2 + int (length command)
       \<and> length (cmd_buffer (snd (prepare_endpoint_cmd ccxt command endpoint))) = 385
       \<and> cmd_buffer (snd (prepare_endpoint_cmd ccxt command endpoint)) =
           [0x00, 0x08] @ command @ [endpoint] @ replicate (385 - 2 - length command - 1) 0
       \<and> fst (prepare_endpoint_cmd ccxt command endpoint) = 2 + int (length command) + 1"
proof -
  let ?n = "length command"
  have fits: "CMD_HEADER_SIZE + ?n \<le> OUT_BUFFER_SIZE"
    using assms(2) by simp
  have n: "?n < 383"
    using assms(2) by (simp add: OUT_BUFFER_SIZE_def CMD_HEADER_SIZE_def)
  have buf: "cmd_buffer (snd (prepare_cmd ccxt command)) =
      [0x00, 0x08] @ command @ replicate (385 - 2 - ?n) 0"
    using cmd_buffer_prepare_cmd [OF assms(1) fits] by (simp add: OUT_BUFFER_SIZE_def)
  have ret: "fst (prepare_cmd ccxt command) = 2 + int ?n"
    by (simp add: prepare_cmd_def Let_def CMD_HEADER_SIZE_def)
  have len: "length (cmd_buffer (snd (prepare_cmd ccxt command))) = 385"
    using n by (simp add: buf)
  have ebuf: "cmd_buffer (snd (prepare_endpoint_cmd ccxt command endpoint)) =
      [0x00, 0x08] @ command @ [endpoint] @ replicate (385 - 2 - ?n - 1) 0"
    using cmd_buffer_prepare_endpoint_cmd [OF assms] by (simp add: OUT_BUFFER_SIZE_def)
  have elen: "length (cmd_buffer (snd (prepare_endpoint_cmd ccxt command endpoint))) = 385"
    using n by (simp add: ebuf)
  have eret: "fst (prepare_endpoint_cmd ccxt command endpoint) = 2 + int ?n + 1"
    using ret by (simp add: prepare_endpoint_cmd_def split_beta)
  from len buf ret elen ebuf eret show ?thesis
    by blast
qed

theorem prepare_cmd_frame_witness:
  "length (cmd_buffer ccxt_zero) = OUT_BUFFER_SIZE
   \<and> CMD_HEADER_SIZE + length cmd_close_endpoint < OUT_BUFFER_SIZE
   \<and> cmd_buffer (snd (prepare_cmd ccxt_zero cmd_close_endpoint)) =
        [0x00, 0x08, 0x05, 0x01, 0x01] @ replicate 380 0
   \<and> fst (prepare_cmd ccxt_zero cmd_close_endpoint) = 5
   \<and> cmd_buffer (snd (prepare_endpoint_cmd ccxt_zero cmd_close_endpoint endpoint_get_fans)) =
        [0x00, 0x08, 0x05, 0x01, 0x01, 0x1a] @ replicate 379 0
   \<and> fst (prepare_endpoint_cmd ccxt_zero cmd_close_endpoint endpoint_get_fans) = 6"
proof -
  have h1: "length (cmd_buffer ccxt_zero) = OUT_BUFFER_SIZE"
    by (simp add: ccxt_zero_def OUT_BUFFER_SIZE_def)
  have h2: "CMD_HEADER_SIZE + length cmd_close_endpoint < OUT_BUFFER_SIZE"
    by (simp add: CMD_HEADER_SIZE_def cmd_close_endpoint_def OUT_BUFFER_SIZE_def)
  show ?thesis
    using h1 h2 prepare_cmd_frame [OF h1 h2, of endpoint_get_fans]
    by (simp add: cmd_close_endpoint_def endpoint_get_fans_def)
qed

subsection \<open>Transport exchange\<close>

text \<open>What \<^verbatim>\<open>send_usb\<close> does once the report has gone out and a reply was captured.\<close>

lemma send_usb_captured:
  assumes "hid (take OUT_BUFFER_SIZE (cmd_buffer ccxt) # sent ccxt) = (r, Some data)"
    and "0 \<le> r"
  shows "send_usb hid ccxt =
     (let c2 = ccxt_raw_event
                 (ccxt\<lparr>sent := take OUT_BUFFER_SIZE (cmd_buffer ccxt) # sent ccxt\<rparr>) data
      in if length data \<noteq> IN_BUFFER_SIZE then (- EPROTO, c2) else (ccxt_get_errno c2, c2))"
  using assms by (simp add: send_usb_def Let_def ccxt_raw_event_def)

text \<open>
  C2. When the output report was accepted and a reply of recorded length 384 was
  captured, \<^verbatim>\<open>send_usb\<close> returns the image of the reply's first byte: \<open>0x00\<close> gives 0,
  \<open>0x01\<close> gives \<open>-EOPNOTSUPP\<close>, \<open>0x10\<close> gives \<open>-EINVAL\<close>, \<open>0x11\<close> and \<open>0x12\<close> give
  \<open>-ENODATA\<close>, every other value gives \<open>-EIO\<close>.
\<close>

theorem send_usb_status_map:
  assumes "hid (take OUT_BUFFER_SIZE (cmd_buffer ccxt) # sent ccxt) = (r, Some data)"
    and "0 \<le> r"
    and "length data = 384"
  shows "fst (send_usb hid ccxt) =
     (if data ! 0 = 0x00 then 0
      else if data ! 0 = 0x01 then - EOPNOTSUPP
      else if data ! 0 = 0x10 then - EINVAL
      else if data ! 0 = 0x11 \<or> data ! 0 = 0x12 then - ENODATA
      else - EIO)"
proof -
  have "buffer (ccxt_raw_event c data) ! 0 = data ! 0" for c
    using assms(3)
    by (simp add: ccxt_raw_event_def Let_def memcpy_def IN_BUFFER_SIZE_def nth_append)
  then show ?thesis
    using assms by (simp add: send_usb_captured Let_def IN_BUFFER_SIZE_def ccxt_get_errno_def)
qed

theorem send_usb_status_map_witness:
  "hid_reply (0x12 # replicate 383 0) (take OUT_BUFFER_SIZE (cmd_buffer ccxt_zero) # sent ccxt_zero)
     = (0, Some (0x12 # replicate 383 0))
   \<and> length (0x12 # replicate 383 (0::u8)) = 384
   \<and> fst (send_usb (hid_reply (0x12 # replicate 383 0)) ccxt_zero) = - ENODATA"
proof -
  let ?data = "0x12 # replicate 383 (0::u8)"
  have h1: "hid_reply ?data (take OUT_BUFFER_SIZE (cmd_buffer ccxt_zero) # sent ccxt_zero)
      = (0, Some ?data)"
    by (simp add: hid_reply_def)
  have h2: "length ?data = 384"
    by simp
  have "fst (send_usb (hid_reply ?data) ccxt_zero) = - ENODATA"
    using send_usb_status_map [of "hid_reply ?data" ccxt_zero 0 ?data, OF h1 _ h2] by simp
  with h1 h2 show ?thesis
    by blast
qed

text \<open>
  C3. When the output report was accepted and a reply was captured whose recorded length
  is not 384, \<^verbatim>\<open>send_usb\<close> returns \<open>-EPROTO\<close>, whatever the reply holds.
\<close>

theorem send_usb_bad_length:
  assumes "hid (take OUT_BUFFER_SIZE (cmd_buffer ccxt) # sent ccxt) = (r, Some data)"
    and "0 \<le> r"
    and "length data \<noteq> 384"
  shows "fst (send_usb hid ccxt) = - EPROTO"
  using assms by (simp add: send_usb_captured Let_def IN_BUFFER_SIZE_def)

theorem send_usb_bad_length_witness:
  "hid_reply (replicate 64 0) (take OUT_BUFFER_SIZE (cmd_buffer ccxt_zero) # sent ccxt_zero)
     = (0, Some (replicate 64 0))
   \<and> length (replicate 64 (0::u8)) \<noteq> 384
   \<and> fst (send_usb (hid_reply (replicate 64 0)) ccxt_zero) = - EPROTO"
proof -
  let ?data = "replicate 64 (0::u8)"
  have h1: "hid_reply ?data (take OUT_BUFFER_SIZE (cmd_buffer ccxt_zero) # sent ccxt_zero)
      = (0, Some ?data)"
    by (simp add: hid_reply_def)
  have h2: "length ?data \<noteq> 384"
    by simp
  have "fst (send_usb (hid_reply ?data) ccxt_zero) = - EPROTO"
    using send_usb_bad_length [of "hid_reply ?data" ccxt_zero 0 ?data, OF h1 _ h2] by simp
  with h1 h2 show ?thesis
    by blast
qed

subsection \<open>PWM rescaling\<close>

text \<open>On a dividend that is not negative, \<^verbatim>\<open>DIV_ROUND_CLOSEST\<close> rounds half up.\<close>

lemma DIV_ROUND_CLOSEST_nonneg:
  assumes "0 \<le> x" and "0 < d"
  shows "DIV_ROUND_CLOSEST x d = (x + d div 2) div d"
proof (cases "x = 0")
  case True
  have "d div 2 < d" using assms(2) by simp
  moreover have "0 \<le> d div 2" using assms(2) by simp
  ultimately have "(d div 2) div d = 0" by simp
  moreover have "\<bar>d div 2\<bar> = d div 2" using \<open>0 \<le> d div 2\<close> by simp
  ultimately show ?thesis
    using True assms(2) by (simp add: DIV_ROUND_CLOSEST_def c_div_def)
next
  case False
  then have "0 < x" using assms(1) by simp
  moreover have "0 \<le> d div 2" using assms(2) by simp
  ultimately show ?thesis
    using assms(2) by (simp add: DIV_ROUND_CLOSEST_def c_div_def sgn_if abs_if)
qed

text \<open>
  The two rescalings composed: for \<open>0 \<le> v \<le> 255\<close>, scaling \<open>v * 100 / 255\<close>, storing the
  result in a byte and scaling the byte \<open>* 255 / 100\<close>, each rounded to nearest, ends
  within 1 of \<open>v\<close>.
\<close>

lemma pwm_rescale_within_one:
  assumes "0 \<le> v" and "v \<le> 255"
  shows "\<bar>DIV_ROUND_CLOSEST
            (uint (word_of_int (DIV_ROUND_CLOSEST (v * 100) 255) :: u8) * 255) 100 - v\<bar> \<le> 1"
proof -
  define s where "s = (v * 100 + 127) div 255"
  define m where "m = (v * 100 + 127) mod 255"
  define r where "r = (s * 255 + 50) div 100"
  define k where "k = (s * 255 + 50) mod 100"
  have sm: "255 * s + m = v * 100 + 127" and m: "0 \<le> m" "m < 255"
    by (simp_all add: s_def m_def)
  have rk: "100 * r + k = s * 255 + 50" and k: "0 \<le> k" "k < 100"
    by (simp_all add: r_def k_def)
  have s: "DIV_ROUND_CLOSEST (v * 100) 255 = s"
    using assms(1) by (simp add: DIV_ROUND_CLOSEST_nonneg s_def)
  have s_range: "0 \<le> s \<and> s \<le> 100"
    using assms sm m by linarith
  then have byte: "uint (word_of_int s :: u8) = s"
    by (simp add: uint_word_of_int)
  have r: "DIV_ROUND_CLOSEST (s * 255) 100 = r"
    using s_range by (simp add: DIV_ROUND_CLOSEST_nonneg r_def)
  have "\<bar>r - v\<bar> \<le> 1"
    using sm m rk k by linarith
  then show ?thesis
    by (simp only: s byte r)
qed

subsection \<open>Endpoint transactions\<close>

text \<open>What each primitive leaves alone.\<close>

lemma prepare_cmd_keeps [simp]:
  "buffer (snd (prepare_cmd c cmd)) = buffer c"
  "data_buffer (snd (prepare_cmd c cmd)) = data_buffer c"
  "buffer_recv_size (snd (prepare_cmd c cmd)) = buffer_recv_size c"
  "data_buffer_recv_size (snd (prepare_cmd c cmd)) = data_buffer_recv_size c"
  "target (snd (prepare_cmd c cmd)) = target c"
  "temp_cnct (snd (prepare_cmd c cmd)) = temp_cnct c"
  "fan_cnct (snd (prepare_cmd c cmd)) = fan_cnct c"
  "fan_label (snd (prepare_cmd c cmd)) = fan_label c"
  "sent (snd (prepare_cmd c cmd)) = sent c"
  by (simp_all add: prepare_cmd_def Let_def)

lemma prepare_endpoint_cmd_keeps [simp]:
  "buffer (snd (prepare_endpoint_cmd c cmd e)) = buffer c"
  "data_buffer (snd (prepare_endpoint_cmd c cmd e)) = data_buffer c"
  "buffer_recv_size (snd (prepare_endpoint_cmd c cmd e)) = buffer_recv_size c"
  "data_buffer_recv_size (snd (prepare_endpoint_cmd c cmd e)) = data_buffer_recv_size c"
  "target (snd (prepare_endpoint_cmd c cmd e)) = target c"
  "temp_cnct (snd (prepare_endpoint_cmd c cmd e)) = temp_cnct c"
  "fan_cnct (snd (prepare_endpoint_cmd c cmd e)) = fan_cnct c"
  "fan_label (snd (prepare_endpoint_cmd c cmd e)) = fan_label c"
  "sent (snd (prepare_endpoint_cmd c cmd e)) = sent c"
  by (simp_all add: prepare_endpoint_cmd_def split_beta)

lemma send_usb_keeps [simp]:
  "data_buffer (snd (send_usb hid c)) = data_buffer c"
  "data_buffer_recv_size (snd (send_usb hid c)) = data_buffer_recv_size c"
  "target (snd (send_usb hid c)) = target c"
  "temp_cnct (snd (send_usb hid c)) = temp_cnct c"
  "fan_cnct (snd (send_usb hid c)) = fan_cnct c"
  "fan_label (snd (send_usb hid c)) = fan_label c"
  "cmd_buffer (snd (send_usb hid c)) = cmd_buffer c"
  by (simp_all add: send_usb_def Let_def ccxt_raw_event_def split_beta split: option.splits)

text \<open>
  The exchanges of a transaction, each on the state the previous one left, and the result
  of the transaction in terms of theirs.
\<close>

lemma read_data_steps:
  "read_data hid ccxt endpoint =
     (let x1 = send_usb hid (snd (prepare_endpoint_cmd ccxt cmd_close_endpoint endpoint));
          x2 = send_usb hid (snd (prepare_endpoint_cmd (snd x1) cmd_open_endpoint endpoint));
          x3 = send_usb hid (snd (prepare_endpoint_cmd (snd x2) cmd_read endpoint));
          c7 = (snd x3)\<lparr>data_buffer :=
                   memcpy (data_buffer (snd x3)) 0 (buffer (snd x3)) IN_BUFFER_SIZE,
                 data_buffer_recv_size := buffer_recv_size (snd x3)\<rparr>;
          x4 = send_usb hid (snd (prepare_endpoint_cmd c7 cmd_close_endpoint endpoint))
      in if fst x1 \<noteq> 0 then x1 else if fst x2 \<noteq> 0 then x2
         else if fst x3 \<noteq> 0 then x3 else x4)"
  by (simp add: read_data_def Let_def split_beta)

lemma prepare_write_cmd_keeps [simp]:
  "buffer (prepare_write_cmd c dt d) = buffer c"
  "data_buffer (prepare_write_cmd c dt d) = data_buffer c"
  "buffer_recv_size (prepare_write_cmd c dt d) = buffer_recv_size c"
  "data_buffer_recv_size (prepare_write_cmd c dt d) = data_buffer_recv_size c"
  "target (prepare_write_cmd c dt d) = target c"
  "temp_cnct (prepare_write_cmd c dt d) = temp_cnct c"
  "fan_cnct (prepare_write_cmd c dt d) = fan_cnct c"
  "fan_label (prepare_write_cmd c dt d) = fan_label c"
  "sent (prepare_write_cmd c dt d) = sent c"
  by (simp_all add: prepare_write_cmd_def Let_def split_beta)

lemma write_data_steps:
  "write_data hid ccxt endpoint data_type data =
     (let x1 = send_usb hid (snd (prepare_endpoint_cmd ccxt cmd_close_endpoint endpoint));
          x2 = send_usb hid (snd (prepare_endpoint_cmd (snd x1) cmd_open_endpoint endpoint));
          x3 = send_usb hid (prepare_write_cmd (snd x2) data_type data);
          c7 = (snd x3)\<lparr>data_buffer :=
                   memcpy (data_buffer (snd x3)) 0 (buffer (snd x3)) IN_BUFFER_SIZE\<rparr>;
          x4 = send_usb hid (snd (prepare_endpoint_cmd c7 cmd_close_endpoint endpoint))
      in if fst x1 \<noteq> 0 then x1 else if fst x2 \<noteq> 0 then x2
         else if fst x3 \<noteq> 0 then x3 else x4)"
  by (simp add: write_data_def Let_def split_beta)


text \<open>Exchanges with the example transport that falls silent.\<close>

lemma send_usb_silent_after:
  "send_usb (hid_silent_after n data) c =
     (let c1 = c\<lparr>sent := take OUT_BUFFER_SIZE (cmd_buffer c) # sent c\<rparr>
      in if length (sent c) < n
         then (let c2 = ccxt_raw_event c1 data
               in if length data \<noteq> IN_BUFFER_SIZE then (- EPROTO, c2) else (ccxt_get_errno c2, c2))
         else (- ETIMEDOUT, c1))"
  by (auto simp add: send_usb_def hid_silent_after_def Let_def ccxt_raw_event_def)


lemma sent_send_usb [simp]:
  "sent (snd (send_usb hid c)) = take OUT_BUFFER_SIZE (cmd_buffer c) # sent c"
  by (simp add: send_usb_def Let_def ccxt_raw_event_def split_beta split: option.splits)

lemma send_usb_silent_after_ok:
  assumes "length (sent c) < n" and "length data = 384" and "data ! 0 = 0"
  shows "fst (send_usb (hid_silent_after n data) c) = 0"
    and "buffer_recv_size (snd (send_usb (hid_silent_after n data) c)) = 384"
  using assms
  by (simp_all add: send_usb_silent_after Let_def IN_BUFFER_SIZE_def ccxt_get_errno_def
      ccxt_raw_event_def memcpy_def nth_append)

lemma send_usb_silent_after_timeout:
  assumes "n \<le> length (sent c)"
  shows "fst (send_usb (hid_silent_after n data) c) = - ETIMEDOUT"
  using assms by (simp add: send_usb_silent_after Let_def)

text \<open>
  C7 (as amended). In \<^verbatim>\<open>read_data\<close> and \<^verbatim>\<open>write_data\<close>, when the first close, the open or
  the read (write) exchange returns a failure, the transaction returns that exchange's
  result and state, and the data buffer (and, for a read, its recorded length) is what it
  was before the transaction. When all three return 0, the reply is copied into the data
  buffer and the transaction returns whatever the trailing close exchange returns: a
  failure of the trailing close is returned to the caller.
\<close>

theorem endpoint_transaction_results:
  "let close1 = send_usb hid (snd (prepare_endpoint_cmd ccxt cmd_close_endpoint endpoint));
       open2 = send_usb hid (snd (prepare_endpoint_cmd (snd close1) cmd_open_endpoint endpoint));
       read3 = send_usb hid (snd (prepare_endpoint_cmd (snd open2) cmd_read endpoint));
       write3 = send_usb hid (prepare_write_cmd (snd open2) data_type data);
       read_copy = (snd read3)\<lparr>data_buffer :=
                       memcpy (data_buffer (snd read3)) 0 (buffer (snd read3)) IN_BUFFER_SIZE,
                     data_buffer_recv_size := buffer_recv_size (snd read3)\<rparr>;
       write_copy = (snd write3)\<lparr>data_buffer :=
                       memcpy (data_buffer (snd write3)) 0 (buffer (snd write3)) IN_BUFFER_SIZE\<rparr>;
       rd = read_data hid ccxt endpoint;
       wr = write_data hid ccxt endpoint data_type data
   in (fst close1 \<noteq> 0 \<longrightarrow>
         rd = close1 \<and> wr = close1 \<and> data_buffer (snd close1) = data_buffer ccxt
         \<and> data_buffer_recv_size (snd close1) = data_buffer_recv_size ccxt)
    \<and> (fst close1 = 0 \<and> fst open2 \<noteq> 0 \<longrightarrow>
         rd = open2 \<and> wr = open2 \<and> data_buffer (snd open2) = data_buffer ccxt
         \<and> data_buffer_recv_size (snd open2) = data_buffer_recv_size ccxt)
    \<and> (fst close1 = 0 \<and> fst open2 = 0 \<and> fst read3 \<noteq> 0 \<longrightarrow>
         rd = read3 \<and> data_buffer (snd read3) = data_buffer ccxt
         \<and> data_buffer_recv_size (snd read3) = data_buffer_recv_size ccxt)
    \<and> (fst close1 = 0 \<and> fst open2 = 0 \<and> fst write3 \<noteq> 0 \<longrightarrow>
         wr = write3 \<and> data_buffer (snd write3) = data_buffer ccxt)
    \<and> (fst close1 = 0 \<and> fst open2 = 0 \<and> fst read3 = 0 \<longrightarrow>
         rd = send_usb hid (snd (prepare_endpoint_cmd read_copy cmd_close_endpoint endpoint)))
    \<and> (fst close1 = 0 \<and> fst open2 = 0 \<and> fst write3 = 0 \<longrightarrow>
         wr = send_usb hid (snd (prepare_endpoint_cmd write_copy cmd_close_endpoint endpoint)))"
  by (simp add: Let_def read_data_steps write_data_steps)

theorem endpoint_transaction_results_witness:
  "fst (read_data (hid_silent_after 0 (replicate 384 0)) ccxt_zero endpoint_get_fans) = - ETIMEDOUT
   \<and> data_buffer (snd (read_data (hid_silent_after 0 (replicate 384 0)) ccxt_zero
         endpoint_get_fans)) = data_buffer ccxt_zero
   \<and> fst (write_data (hid_silent_after 1 (replicate 384 0)) ccxt_zero endpoint_fan_pwm
         data_type_set_speed [1, 0, 0, 50, 0]) = - ETIMEDOUT
   \<and> data_buffer (snd (write_data (hid_silent_after 1 (replicate 384 0)) ccxt_zero
         endpoint_fan_pwm data_type_set_speed [1, 0, 0, 50, 0])) = data_buffer ccxt_zero
   \<and> fst (read_data (hid_silent_after 2 (replicate 384 0)) ccxt_zero endpoint_get_fans) = - ETIMEDOUT
   \<and> data_buffer_recv_size (snd (read_data (hid_silent_after 2 (replicate 384 0)) ccxt_zero
         endpoint_get_fans)) = data_buffer_recv_size ccxt_zero
   \<and> fst (write_data (hid_silent_after 2 (replicate 384 0)) ccxt_zero endpoint_fan_pwm
         data_type_set_speed [1, 0, 0, 50, 0]) = - ETIMEDOUT
   \<and> fst (read_data (hid_silent_after 3 (replicate 384 0)) ccxt_zero endpoint_get_fans) = - ETIMEDOUT
   \<and> fst (write_data (hid_silent_after 3 (replicate 384 0)) ccxt_zero endpoint_fan_pwm
         data_type_set_speed [1, 0, 0, 50, 0]) = - ETIMEDOUT"
proof -
  let ?D = "replicate 384 (0::u8)"
  have z: "sent ccxt_zero = []"
    by (simp add: ccxt_zero_def)
  have d: "length ?D = 384" "?D ! 0 = 0"
    by simp_all
  note ev = Let_def z ETIMEDOUT_def send_usb_silent_after_ok [OF _ d] send_usb_silent_after_timeout
  have t0: "fst (read_data (hid_silent_after 0 ?D) ccxt_zero endpoint_get_fans) = - ETIMEDOUT
      \<and> data_buffer (snd (read_data (hid_silent_after 0 ?D) ccxt_zero endpoint_get_fans))
          = data_buffer ccxt_zero"
    using endpoint_transaction_results [of "hid_silent_after 0 ?D" ccxt_zero endpoint_get_fans
        data_type_set_speed "[1, 0, 0, 50, 0]"]
    by (simp add: ev)
  have t1: "fst (write_data (hid_silent_after 1 ?D) ccxt_zero endpoint_fan_pwm
        data_type_set_speed [1, 0, 0, 50, 0]) = - ETIMEDOUT
      \<and> data_buffer (snd (write_data (hid_silent_after 1 ?D) ccxt_zero endpoint_fan_pwm
        data_type_set_speed [1, 0, 0, 50, 0])) = data_buffer ccxt_zero"
    using endpoint_transaction_results [of "hid_silent_after 1 ?D" ccxt_zero endpoint_fan_pwm
        data_type_set_speed "[1, 0, 0, 50, 0]"]
    by (simp add: ev)
  have t2: "fst (read_data (hid_silent_after 2 ?D) ccxt_zero endpoint_get_fans) = - ETIMEDOUT
      \<and> data_buffer_recv_size (snd (read_data (hid_silent_after 2 ?D) ccxt_zero
            endpoint_get_fans)) = data_buffer_recv_size ccxt_zero"
    using endpoint_transaction_results [of "hid_silent_after 2 ?D" ccxt_zero endpoint_get_fans
        data_type_set_speed "[1, 0, 0, 50, 0]"]
    by (simp add: ev)
  have t2w: "fst (write_data (hid_silent_after 2 ?D) ccxt_zero endpoint_fan_pwm
        data_type_set_speed [1, 0, 0, 50, 0]) = - ETIMEDOUT"
    using endpoint_transaction_results [of "hid_silent_after 2 ?D" ccxt_zero endpoint_fan_pwm
        data_type_set_speed "[1, 0, 0, 50, 0]"]
    by (simp add: ev)
  have t3: "fst (read_data (hid_silent_after 3 ?D) ccxt_zero endpoint_get_fans) = - ETIMEDOUT"
    using endpoint_transaction_results [of "hid_silent_after 3 ?D" ccxt_zero endpoint_get_fans
        data_type_set_speed "[1, 0, 0, 50, 0]"]
    by (simp add: ev)
  have t3w: "fst (write_data (hid_silent_after 3 ?D) ccxt_zero endpoint_fan_pwm
        data_type_set_speed [1, 0, 0, 50, 0]) = - ETIMEDOUT"
    using endpoint_transaction_results [of "hid_silent_after 3 ?D" ccxt_zero endpoint_fan_pwm
        data_type_set_speed "[1, 0, 0, 50, 0]"]
    by (simp add: ev)
  from t0 t1 t2 t2w t3 t3w show ?thesis
    by blast
qed

text \<open>
  C7 as stated fails. With a device that answers the first three reports with status 0 and
  is silent on the fourth, \<^verbatim>\<open>read_data\<close> sends four reports and copies the reply (the
  recorded length of the data buffer goes from 0 to 384), so the trailing close is the only
  exchange that fails; the transaction returns \<open>-ETIMEDOUT\<close>, not success.
\<close>

theorem trailing_close_failure_returned:
  "fst (read_data (hid_silent_after 3 (replicate 384 0)) ccxt_zero endpoint_get_fans) = - ETIMEDOUT
   \<and> fst (read_data (hid_silent_after 3 (replicate 384 0)) ccxt_zero endpoint_get_fans) \<noteq> 0
   \<and> length (sent (snd (read_data (hid_silent_after 3 (replicate 384 0)) ccxt_zero
         endpoint_get_fans))) = 4
   \<and> data_buffer_recv_size (snd (read_data (hid_silent_after 3 (replicate 384 0)) ccxt_zero
         endpoint_get_fans)) = 384
   \<and> data_buffer_recv_size ccxt_zero = 0"
proof -
  let ?H = "hid_silent_after 3 (replicate 384 (0::u8))"
  have z: "sent ccxt_zero = []" "data_buffer_recv_size ccxt_zero = 0"
    by (simp_all add: ccxt_zero_def)
  have d: "length (replicate 384 (0::u8)) = 384" "replicate 384 (0::u8) ! 0 = 0"
    by simp_all
  show ?thesis
    by (simp add: read_data_steps Let_def z send_usb_silent_after_ok [OF _ d]
        send_usb_silent_after_timeout ETIMEDOUT_def)
qed

subsection \<open>Response decoders\<close>

lemma scnprintf_fan_labels:
  "scnprintf_fan LABEL_LENGTH 1 = ''fan1''"
  "scnprintf_fan LABEL_LENGTH 2 = ''fan2''"
  "scnprintf_fan LABEL_LENGTH 3 = ''fan3''"
  "scnprintf_fan LABEL_LENGTH 4 = ''fan4''"
  "scnprintf_fan LABEL_LENGTH 5 = ''fan5''"
  "scnprintf_fan LABEL_LENGTH 6 = ''fan6''"
  by code_simp+

lemma scnprintf_fan_channel:
  assumes "channel < 6"
  shows "scnprintf_fan LABEL_LENGTH (int channel + 1) =
           [''fan1'', ''fan2'', ''fan3'', ''fan4'', ''fan5'', ''fan6''] ! channel"
proof -
  from assms have "channel = 0 \<or> channel = 1 \<or> channel = 2 \<or> channel = 3 \<or> channel = 4 \<or> channel = 5"
    by arith
  then show ?thesis
    by (elim disjE) (simp_all add: scnprintf_fan_labels)
qed

lemma get_fan_cnct_body_fields [simp]:
  "data_buffer (get_fan_cnct_body channel c) = data_buffer c"
  "length (target (get_fan_cnct_body channel c)) = length (target c)"
  "length (fan_label (get_fan_cnct_body channel c)) = length (fan_label c)"
  "temp_cnct (get_fan_cnct_body channel c) = temp_cnct c"
  "sent (get_fan_cnct_body channel c) = sent c"
  by (simp_all add: get_fan_cnct_body_def Let_def)

lemma get_fan_cnct_loop_fields [simp]:
  "data_buffer (get_fan_cnct_loop channel limit c) = data_buffer c"
  "length (target (get_fan_cnct_loop channel limit c)) = length (target c)"
  "length (fan_label (get_fan_cnct_loop channel limit c)) = length (fan_label c)"
  "temp_cnct (get_fan_cnct_loop channel limit c) = temp_cnct c"
  "sent (get_fan_cnct_loop channel limit c) = sent c"
  by (induction channel limit c rule: get_fan_cnct_loop.induct;
      subst get_fan_cnct_loop.simps; simp)+

lemma test_bit_set_bit:
  "nr < 64 \<Longrightarrow> test_bit n (set_bit nr w) \<longleftrightarrow> n = nr \<or> test_bit n w"
  by (auto simp add: test_bit_def set_bit_def bit_simps)

lemma get_fan_cnct_loop_bit:
  assumes "limit \<le> 64"
  shows "test_bit n (fan_cnct (get_fan_cnct_loop channel limit c)) \<longleftrightarrow>
           test_bit n (fan_cnct c) \<or>
           (channel \<le> n \<and> n < limit \<and> data_buffer c ! (FAN_DATA_OFFSET + n) = FAN_STATE_OK)"
  using assms
proof (induction channel limit c rule: get_fan_cnct_loop.induct)
  case (1 channel limit ccxt)
  show ?case
  proof (cases "channel < limit")
    case True
    have body: "test_bit n (fan_cnct (get_fan_cnct_body channel ccxt)) \<longleftrightarrow>
        test_bit n (fan_cnct ccxt) \<or>
        (n = channel \<and> data_buffer ccxt ! (FAN_DATA_OFFSET + channel) = FAN_STATE_OK)"
      using True "1.prems"
      by (auto simp add: get_fan_cnct_body_def Let_def test_bit_set_bit)
    show ?thesis
      using True "1.IH" [OF True "1.prems"] body
      by (subst get_fan_cnct_loop.simps) (auto simp add: le_Suc_eq Suc_le_eq)
  next
    case False
    then show ?thesis
      by (subst get_fan_cnct_loop.simps) auto
  qed
qed

lemma get_fan_cnct_loop_target:
  assumes "n < length (target c)"
  shows "target (get_fan_cnct_loop channel limit c) ! n =
           (if channel \<le> n \<and> n < limit \<and> data_buffer c ! (FAN_DATA_OFFSET + n) = FAN_STATE_OK
            then - ENODATA else target c ! n)"
  using assms
proof (induction channel limit c rule: get_fan_cnct_loop.induct)
  case (1 channel limit ccxt)
  show ?case
  proof (cases "channel < limit")
    case True
    have body: "target (get_fan_cnct_body channel ccxt) ! n =
        (if n = channel \<and> data_buffer ccxt ! (FAN_DATA_OFFSET + channel) = FAN_STATE_OK
         then - ENODATA else target ccxt ! n)"
      using "1.prems" by (simp add: get_fan_cnct_body_def Let_def nth_list_update)
    have len: "n < length (target (get_fan_cnct_body channel ccxt))"
      using "1.prems" by simp
    show ?thesis
      using True "1.IH" [OF True len] body
      by (subst get_fan_cnct_loop.simps) (auto simp add: le_Suc_eq Suc_le_eq)
  next
    case False
    then show ?thesis
      by (subst get_fan_cnct_loop.simps) auto
  qed
qed

lemma get_fan_cnct_loop_label:
  assumes "n < length (fan_label c)"
  shows "fan_label (get_fan_cnct_loop channel limit c) ! n =
           (if channel \<le> n \<and> n < limit \<and> data_buffer c ! (FAN_DATA_OFFSET + n) = FAN_STATE_OK
            then scnprintf_fan LABEL_LENGTH (int n + 1) else fan_label c ! n)"
  using assms
proof (induction channel limit c rule: get_fan_cnct_loop.induct)
  case (1 channel limit ccxt)
  show ?case
  proof (cases "channel < limit")
    case True
    have body: "fan_label (get_fan_cnct_body channel ccxt) ! n =
        (if n = channel \<and> data_buffer ccxt ! (FAN_DATA_OFFSET + channel) = FAN_STATE_OK
         then scnprintf_fan LABEL_LENGTH (int n + 1) else fan_label ccxt ! n)"
      using "1.prems" by (simp add: get_fan_cnct_body_def Let_def nth_list_update)
    have len: "n < length (fan_label (get_fan_cnct_body channel ccxt))"
      using "1.prems" by simp
    show ?thesis
      using True "1.IH" [OF True len] body
      by (subst get_fan_cnct_loop.simps) (auto simp add: le_Suc_eq Suc_le_eq)
  next
    case False
    then show ?thesis
      by (subst get_fan_cnct_loop.simps) auto
  qed
qed


lemma read_data_fields [simp]:
  "target (snd (read_data hid c e)) = target c"
  "temp_cnct (snd (read_data hid c e)) = temp_cnct c"
  "fan_cnct (snd (read_data hid c e)) = fan_cnct c"
  "fan_label (snd (read_data hid c e)) = fan_label c"
  by (simp_all add: read_data_steps Let_def)

lemma write_data_fields [simp]:
  "target (snd (write_data hid c e dt d)) = target c"
  "temp_cnct (snd (write_data hid c e dt d)) = temp_cnct c"
  "fan_cnct (snd (write_data hid c e dt d)) = fan_cnct c"
  "fan_label (snd (write_data hid c e dt d)) = fan_label c"
  by (simp_all add: write_data_steps Let_def)

lemma send_usb_hid_reply:
  assumes "length data = 384" and "data ! 0 = 0" and "length (buffer c) = 384"
  shows "fst (send_usb (hid_reply data) c) = 0"
    and "buffer (snd (send_usb (hid_reply data) c)) = data"
    and "buffer_recv_size (snd (send_usb (hid_reply data) c)) = 384"
  using assms
  by (simp_all add: send_usb_def hid_reply_def Let_def ccxt_raw_event_def memcpy_def
      IN_BUFFER_SIZE_def ccxt_get_errno_def)

lemma read_data_hid_reply:
  assumes "length data = 384" and "data ! 0 = 0"
    and "length (buffer c) = 384" and "length (data_buffer c) = 384"
  shows "fst (read_data (hid_reply data) c e) = 0"
    and "data_buffer (snd (read_data (hid_reply data) c e)) = data"
  using assms
  by (simp_all add: read_data_steps Let_def send_usb_hid_reply memcpy_def IN_BUFFER_SIZE_def)

lemma ccxt_wf_zero: "ccxt_wf ccxt_zero"
  by (simp add: ccxt_wf_def ccxt_zero_def OUT_BUFFER_SIZE_def IN_BUFFER_SIZE_def NUM_FANS_def)

lemma inventory_payload_bytes:
  "length inventory_payload = 384" "inventory_payload ! 0 = 0" "inventory_payload ! 5 = 3"
  "inventory_payload ! 6 = 7" "inventory_payload ! 7 = 0" "inventory_payload ! 8 = 7"
  by (simp_all add: inventory_payload_def)

lemma pwm_payload_bytes:
  "length pwm_payload = 384" "pwm_payload ! 0 = 0" "pwm_payload ! 5 = 1"
  "pwm_payload ! 6 = 0" "pwm_payload ! 8 = 50"
  by (simp_all add: pwm_payload_def)

text \<open>
  C5. After a successful read of the fan inventory, with \<open>limit\<close> the minimum of the count
  byte at offset 5 and 6: \<^verbatim>\<open>get_fan_cnct\<close> returns 0; a channel whose bit is set
  afterwards and was not set before is below \<open>limit\<close> and has the state byte \<open>0x07\<close> at
  offset \<open>6 + channel\<close>; for a channel at or beyond \<open>limit\<close> the bit, the cached target
  and the label are what they were; a channel below \<open>limit\<close> with state \<open>0x07\<close> has its
  bit set, its cached target \<open>-ENODATA\<close> and the label \<open>fan\<close> followed by its 1-based
  number.
\<close>

theorem get_fan_cnct_decode:
  assumes "ccxt_wf ccxt" and "fst (read_data hid ccxt endpoint_get_fans) = 0"
  shows "let payload = data_buffer (snd (read_data hid ccxt endpoint_get_fans));
             limit = min (unat (payload ! 5)) 6;
             c2 = snd (get_fan_cnct hid ccxt)
         in fst (get_fan_cnct hid ccxt) = 0
          \<and> (\<forall>channel. test_bit channel (fan_cnct c2) \<and> \<not> test_bit channel (fan_cnct ccxt)
                \<longrightarrow> channel < limit \<and> payload ! (6 + channel) = 0x07)
          \<and> (\<forall>channel. limit \<le> channel
                \<longrightarrow> (test_bit channel (fan_cnct c2) \<longleftrightarrow> test_bit channel (fan_cnct ccxt))
                  \<and> (channel < 6 \<longrightarrow> target c2 ! channel = target ccxt ! channel
                        \<and> fan_label c2 ! channel = fan_label ccxt ! channel))
          \<and> (\<forall>channel < limit. payload ! (6 + channel) = 0x07
                \<longrightarrow> test_bit channel (fan_cnct c2)
                  \<and> target c2 ! channel = - ENODATA
                  \<and> fan_label c2 ! channel =
                      [''fan1'', ''fan2'', ''fan3'', ''fan4'', ''fan5'', ''fan6''] ! channel)"
proof -
  define c1 where "c1 = snd (read_data hid ccxt endpoint_get_fans)"
  define limit where "limit = min (unat (data_buffer c1 ! 5)) 6"
  define c2 where "c2 = get_fan_cnct_loop 0 limit c1"
  have res: "get_fan_cnct hid ccxt = (0, c2)"
    using assms(2)
    by (simp add: get_fan_cnct_def split_beta Let_def c2_def limit_def c1_def
        FAN_CNT_INDEX_def NUM_FANS_def)
  have len: "length (target ccxt) = 6" "length (fan_label ccxt) = 6"
    using assms(1) by (simp_all add: ccxt_wf_def NUM_FANS_def)
  have old: "fan_cnct c1 = fan_cnct ccxt" "target c1 = target ccxt" "fan_label c1 = fan_label ccxt"
    by (simp_all add: c1_def)
  have lim: "limit \<le> 6"
    by (simp add: limit_def)
  then have lim64: "limit \<le> 64"
    by simp
  have bits: "test_bit n (fan_cnct c2) \<longleftrightarrow>
      test_bit n (fan_cnct ccxt) \<or> (n < limit \<and> data_buffer c1 ! (6 + n) = 0x07)" for n
    using get_fan_cnct_loop_bit [OF lim64, of n 0 c1]
    by (simp add: c2_def old FAN_DATA_OFFSET_def FAN_STATE_OK_def)
  have targets: "target c2 ! n =
      (if n < limit \<and> data_buffer c1 ! (6 + n) = 0x07 then - ENODATA else target ccxt ! n)"
    if "n < 6" for n
    using that get_fan_cnct_loop_target [of n c1 0 limit]
    by (simp add: c2_def old len FAN_DATA_OFFSET_def FAN_STATE_OK_def)
  have labels: "fan_label c2 ! n =
      (if n < limit \<and> data_buffer c1 ! (6 + n) = 0x07
       then [''fan1'', ''fan2'', ''fan3'', ''fan4'', ''fan5'', ''fan6''] ! n
       else fan_label ccxt ! n)"
    if "n < 6" for n
    using that get_fan_cnct_loop_label [of n c1 0 limit] scnprintf_fan_channel [OF that]
    by (simp add: c2_def old len FAN_DATA_OFFSET_def FAN_STATE_OK_def)
  have p1: "\<forall>channel. test_bit channel (fan_cnct c2) \<and> \<not> test_bit channel (fan_cnct ccxt)
      \<longrightarrow> channel < limit \<and> data_buffer c1 ! (6 + channel) = 0x07"
    using bits by blast
  have p2: "\<forall>channel. limit \<le> channel
      \<longrightarrow> (test_bit channel (fan_cnct c2) \<longleftrightarrow> test_bit channel (fan_cnct ccxt))
        \<and> (channel < 6 \<longrightarrow> target c2 ! channel = target ccxt ! channel
              \<and> fan_label c2 ! channel = fan_label ccxt ! channel)"
    using bits targets labels by auto
  have p3: "\<forall>channel < limit. data_buffer c1 ! (6 + channel) = 0x07
      \<longrightarrow> test_bit channel (fan_cnct c2)
        \<and> target c2 ! channel = - ENODATA
        \<and> fan_label c2 ! channel =
            [''fan1'', ''fan2'', ''fan3'', ''fan4'', ''fan5'', ''fan6''] ! channel"
  proof (intro allI impI)
    fix channel
    assume a: "channel < limit" "data_buffer c1 ! (6 + channel) = 0x07"
    then have "channel < 6"
      using lim by simp
    then show "test_bit channel (fan_cnct c2)
        \<and> target c2 ! channel = - ENODATA
        \<and> fan_label c2 ! channel =
            [''fan1'', ''fan2'', ''fan3'', ''fan4'', ''fan5'', ''fan6''] ! channel"
      using a bits [of channel] targets [of channel] labels [of channel] by simp
  qed
  show ?thesis
    unfolding Let_def res fst_conv snd_conv
    using p1 p2 p3 unfolding c1_def [symmetric] limit_def by blast
qed

theorem get_fan_cnct_decode_witness:
  "ccxt_wf ccxt_zero
   \<and> fst (read_data (hid_reply inventory_payload) ccxt_zero endpoint_get_fans) = 0
   \<and> fst (get_fan_cnct (hid_reply inventory_payload) ccxt_zero) = 0
   \<and> test_bit 0 (fan_cnct (snd (get_fan_cnct (hid_reply inventory_payload) ccxt_zero)))
   \<and> \<not> test_bit 1 (fan_cnct (snd (get_fan_cnct (hid_reply inventory_payload) ccxt_zero)))
   \<and> test_bit 2 (fan_cnct (snd (get_fan_cnct (hid_reply inventory_payload) ccxt_zero)))
   \<and> \<not> test_bit 3 (fan_cnct (snd (get_fan_cnct (hid_reply inventory_payload) ccxt_zero)))
   \<and> target (snd (get_fan_cnct (hid_reply inventory_payload) ccxt_zero)) ! 2 = - ENODATA
   \<and> target (snd (get_fan_cnct (hid_reply inventory_payload) ccxt_zero)) ! 3 = 0
   \<and> fan_label (snd (get_fan_cnct (hid_reply inventory_payload) ccxt_zero)) ! 0 = ''fan1''
   \<and> fan_label (snd (get_fan_cnct (hid_reply inventory_payload) ccxt_zero)) ! 2 = ''fan3''
   \<and> fan_label (snd (get_fan_cnct (hid_reply inventory_payload) ccxt_zero)) ! 3 = []"
proof -
  let ?H = "hid_reply inventory_payload"
  have z: "length (buffer ccxt_zero) = 384" "length (data_buffer ccxt_zero) = 384"
      "fan_cnct ccxt_zero = 0" "target ccxt_zero ! 3 = 0" "fan_label ccxt_zero ! 3 = []"
    by (simp_all add: ccxt_zero_def numeral_eq_Suc)
  have h: "fst (read_data ?H ccxt_zero endpoint_get_fans) = 0"
    and p: "data_buffer (snd (read_data ?H ccxt_zero endpoint_get_fans)) = inventory_payload"
    using read_data_hid_reply [OF inventory_payload_bytes(1,2) z(1,2)] by simp_all
  note t = get_fan_cnct_decode [OF ccxt_wf_zero h, unfolded Let_def p inventory_payload_bytes]
  have lim: "min (unat (3::u8)) 6 = 3"
    by simp
  from t have r: "fst (get_fan_cnct ?H ccxt_zero) = 0"
    by simp
  from t have b0: "test_bit 0 (fan_cnct (snd (get_fan_cnct ?H ccxt_zero)))"
    and t0: "fan_label (snd (get_fan_cnct ?H ccxt_zero)) ! 0 = ''fan1''"
    by (simp_all add: lim inventory_payload_bytes)
  from t have b2: "test_bit 2 (fan_cnct (snd (get_fan_cnct ?H ccxt_zero)))"
    and t2: "target (snd (get_fan_cnct ?H ccxt_zero)) ! 2 = - ENODATA"
    and l2: "fan_label (snd (get_fan_cnct ?H ccxt_zero)) ! 2 = ''fan3''"
    by (simp_all add: lim inventory_payload_bytes)
  from t have b1: "\<not> test_bit 1 (fan_cnct (snd (get_fan_cnct ?H ccxt_zero)))"
    using inventory_payload_bytes(5) by (auto simp add: lim z test_bit_def)
  from t have b3: "\<not> test_bit 3 (fan_cnct (snd (get_fan_cnct ?H ccxt_zero)))"
    and t3: "target (snd (get_fan_cnct ?H ccxt_zero)) ! 3 = 0"
    and l3: "fan_label (snd (get_fan_cnct ?H ccxt_zero)) ! 3 = []"
    by (simp_all add: lim z test_bit_def)
  from ccxt_wf_zero h r b0 b1 b2 b3 t2 t3 t0 l2 l3 show ?thesis
    by blast
qed

text \<open>
  C6. After a successful read of the fan-pwm endpoint, for a channel below the minimum of
  the count byte and 6: when the byte at offset \<open>6 + channel * 4\<close> is not the channel,
  \<^verbatim>\<open>get_fan_pwm\<close> returns \<open>-EIO\<close> and stores no value; otherwise it returns 0 and stores
  the byte at offset \<open>6 + channel * 4 + 2\<close> times 255 over 100, rounded to nearest.
\<close>

theorem get_fan_pwm_decode:
  assumes "fst (read_data hid ccxt endpoint_fan_pwm) = 0"
    and "channel < min (unat (data_buffer (snd (read_data hid ccxt endpoint_fan_pwm)) ! 5)) 6"
  shows "let payload = data_buffer (snd (read_data hid ccxt endpoint_fan_pwm));
             result = get_fan_pwm hid ccxt channel
         in (unat (payload ! (6 + channel * 4)) \<noteq> channel
               \<longrightarrow> fst result = - EIO \<and> fst (snd result) = None)
          \<and> (unat (payload ! (6 + channel * 4)) = channel
               \<longrightarrow> fst result = 0
                 \<and> fst (snd result) =
                     Some (int ((unat (payload ! (6 + channel * 4 + 2)) * 255 + 50) div 100)))"
proof -
  define payload where "payload = data_buffer (snd (read_data hid ccxt endpoint_fan_pwm))"
  have id: "uint (payload ! (6 + channel * 4)) \<noteq> int channel \<longleftrightarrow>
      unat (payload ! (6 + channel * 4)) \<noteq> channel"
    by (simp only: uint_nat of_nat_eq_iff)
  have scale: "DIV_ROUND_CLOSEST (uint b * 255) 100 = int ((unat b * 255 + 50) div 100)" for b :: u8
  proof -
    have "DIV_ROUND_CLOSEST (uint b * 255) 100 = (uint b * 255 + 50) div 100"
      by (simp add: DIV_ROUND_CLOSEST_nonneg)
    also have "\<dots> = int ((unat b * 255 + 50) div 100)"
      by (simp only: uint_nat zdiv_int of_nat_add of_nat_mult of_nat_numeral)
    finally show ?thesis .
  qed
  have valid: "\<not> min (unat (payload ! 5)) 6 \<le> channel"
    using assms(2) unfolding payload_def by (simp only: not_le)
  show ?thesis
    using assms(1) valid
    by (simp add: get_fan_pwm_def split_beta Let_def payload_def [symmetric] id scale
        FAN_CNT_INDEX_def NUM_FANS_def FAN_DATA_OFFSET_def del: min_le_iff_disj)
qed

theorem get_fan_pwm_decode_witness:
  "fst (read_data (hid_reply pwm_payload) ccxt_zero endpoint_fan_pwm) = 0
   \<and> fst (get_fan_pwm (hid_reply pwm_payload) ccxt_zero 0) = 0
   \<and> fst (snd (get_fan_pwm (hid_reply pwm_payload) ccxt_zero 0)) = Some 128
   \<and> fst (read_data (hid_reply inventory_payload) ccxt_zero endpoint_fan_pwm) = 0
   \<and> fst (get_fan_pwm (hid_reply inventory_payload) ccxt_zero 0) = - EIO
   \<and> fst (snd (get_fan_pwm (hid_reply inventory_payload) ccxt_zero 0)) = None"
proof -
  have z: "length (buffer ccxt_zero) = 384" "length (data_buffer ccxt_zero) = 384"
    by (simp_all add: ccxt_zero_def)
  have h1: "fst (read_data (hid_reply pwm_payload) ccxt_zero endpoint_fan_pwm) = 0"
    and p1: "data_buffer (snd (read_data (hid_reply pwm_payload) ccxt_zero endpoint_fan_pwm))
        = pwm_payload"
    using read_data_hid_reply [OF pwm_payload_bytes(1,2) z] by simp_all
  have v1: "0 < min (unat (data_buffer (snd (read_data (hid_reply pwm_payload) ccxt_zero
      endpoint_fan_pwm)) ! 5)) 6"
    by (simp add: p1 pwm_payload_bytes)
  have h2: "fst (read_data (hid_reply inventory_payload) ccxt_zero endpoint_fan_pwm) = 0"
    and p2: "data_buffer (snd (read_data (hid_reply inventory_payload) ccxt_zero
        endpoint_fan_pwm)) = inventory_payload"
    using read_data_hid_reply [OF inventory_payload_bytes(1,2) z] by simp_all
  have v2: "0 < min (unat (data_buffer (snd (read_data (hid_reply inventory_payload) ccxt_zero
      endpoint_fan_pwm)) ! 5)) 6"
    by (simp add: p2 inventory_payload_bytes)
  have r1: "fst (get_fan_pwm (hid_reply pwm_payload) ccxt_zero 0) = 0
      \<and> fst (snd (get_fan_pwm (hid_reply pwm_payload) ccxt_zero 0)) = Some 128"
    using get_fan_pwm_decode [OF h1 v1] by (simp add: Let_def p1 pwm_payload_bytes)
  have r2: "fst (get_fan_pwm (hid_reply inventory_payload) ccxt_zero 0) = - EIO
      \<and> fst (snd (get_fan_pwm (hid_reply inventory_payload) ccxt_zero 0)) = None"
    using get_fan_pwm_decode [OF h2 v2] by (simp add: Let_def p2 inventory_payload_bytes)
  from h1 r1 h2 r2 show ?thesis
    by blast
qed

subsection \<open>Device state and sensor facade\<close>

lemma clamp_val_if:
  "clamp_val val 0 0xFFFF = (if val < 0 then 0 else if val > 0xFFFF then 0xFFFF else val)"
  by (simp add: clamp_val_def)

text \<open>
  C9. \<^verbatim>\<open>set_target\<close> clamps the requested value to \<open>0..0xFFFF\<close>, stores the clamped
  value as the channel's cached target and returns \<open>-1\<close>, a failure; a read of the fan
  target through \<^verbatim>\<open>ccxt_read\<close> on the resulting state succeeds with the clamped value.
\<close>

theorem set_target_cached:
  assumes "channel < length (target ccxt)"
  shows "let clamped = (if val < 0 then 0 else if val > 0xFFFF then 0xFFFF else val);
             result = set_target ccxt channel val
         in fst result = - 1 \<and> fst result \<noteq> 0
          \<and> target (snd result) ! channel = clamped
          \<and> 0 \<le> clamped \<and> clamped \<le> 0xFFFF
          \<and> ccxt_read hid (snd result) hwmon_fan hwmon_fan_target channel
              = (0, Some clamped, snd result)"
  using assms
  by (simp add: Let_def set_target_def clamp_val_if ccxt_read_def hwmon_fan_target_def
      hwmon_fan_input_def)

theorem set_target_cached_witness:
  "(1::nat) < length (target ccxt_zero)
   \<and> fst (set_target ccxt_zero 1 70000) = - 1
   \<and> target (snd (set_target ccxt_zero 1 70000)) ! 1 = 65535
   \<and> fst (ccxt_read (hid_reply []) (snd (set_target ccxt_zero 1 70000)) hwmon_fan hwmon_fan_target 1) = 0
   \<and> fst (snd (ccxt_read (hid_reply []) (snd (set_target ccxt_zero 1 70000)) hwmon_fan
        hwmon_fan_target 1)) = Some 65535
   \<and> target (snd (set_target ccxt_zero 1 (- 5))) ! 1 = 0
   \<and> fst (snd (ccxt_read (hid_reply []) (snd (set_target ccxt_zero 1 1200)) hwmon_fan
        hwmon_fan_target 1)) = Some 1200"
proof -
  have h: "(1::nat) < length (target ccxt_zero)"
    by (simp add: ccxt_zero_def)
  from set_target_cached [OF h, of 70000 "hid_reply []"]
    set_target_cached [OF h, of "- 5" "hid_reply []"]
    set_target_cached [OF h, of 1200 "hid_reply []"] h
  show ?thesis
    by (simp add: Let_def)
qed

text \<open>No function of the driver writes the temperature bitmap.\<close>

lemma get_temp_cnct_loop_id [simp]: "get_temp_cnct_loop channel limit c = c"
  by (induction channel limit c rule: get_temp_cnct_loop.induct)
    (subst get_temp_cnct_loop.simps, simp add: Let_def)

lemma temp_cnct_exchange [simp]:
  "temp_cnct (snd (set_software_mode hid c)) = temp_cnct c"
  "temp_cnct (snd (set_hardware_mode hid c)) = temp_cnct c"
  "temp_cnct (snd (get_fw_version hid c)) = temp_cnct c"
  by (simp_all add: set_software_mode_def set_hardware_mode_def get_fw_version_def split_beta
      Let_def)

lemma temp_cnct_decoders [simp]:
  "temp_cnct (snd (get_fan_cnct hid c)) = temp_cnct c"
  "temp_cnct (snd (get_temp_cnct hid c)) = temp_cnct c"
  "temp_cnct (snd (snd (get_fan_rpm hid c channel))) = temp_cnct c"
  "temp_cnct (snd (snd (get_fan_pwm hid c channel))) = temp_cnct c"
  by (simp_all add: get_fan_cnct_def get_temp_cnct_def get_fan_rpm_def get_fan_pwm_def
      split_beta Let_def)

lemma temp_cnct_facade [simp]:
  "temp_cnct (snd (set_pwm hid c channel val)) = temp_cnct c"
  "temp_cnct (snd (set_target c channel val)) = temp_cnct c"
  "temp_cnct (snd (snd (ccxt_read hid c type attr channel))) = temp_cnct c"
  "temp_cnct (snd (ccxt_write hid c type attr channel val)) = temp_cnct c"
  "temp_cnct (ccxt_raw_event c data) = temp_cnct c"
  by (simp_all add: set_pwm_def set_target_def ccxt_read_def ccxt_write_def ccxt_raw_event_def
      split_beta Let_def split: hwmon_sensor_types.splits)

lemma temp_cnct_step: "temp_cnct (ccxt_step hid op c) = temp_cnct c"
  by (cases op) simp_all

lemma temp_cnct_reachable: "ccxt_reachable c \<Longrightarrow> temp_cnct c = 0"
  by (induction rule: ccxt_reachable.induct) (simp_all add: ccxt_initial_def temp_cnct_step)

text \<open>
  C10. \<^verbatim>\<open>get_temp_cnct\<close> always returns a failure and leaves the temperature bitmap as
  it was, as does every other entry point; so in every reachable state the bitmap is zero
  and \<^verbatim>\<open>ccxt_is_visible\<close> gives mode 0 for every attribute and channel of type
  \<^verbatim>\<open>hwmon_temp\<close>.
\<close>

theorem temp_entries_hidden:
  "fst (get_temp_cnct hid ccxt) \<noteq> 0
   \<and> temp_cnct (snd (get_temp_cnct hid ccxt)) = temp_cnct ccxt
   \<and> temp_cnct (ccxt_step hid op ccxt) = temp_cnct ccxt
   \<and> (ccxt_reachable ccxt \<longrightarrow>
        temp_cnct ccxt = 0 \<and> ccxt_is_visible ccxt hwmon_temp attr channel = 0)"
proof -
  have "fst (get_temp_cnct hid ccxt) \<noteq> 0"
    by (simp add: get_temp_cnct_def split_beta Let_def)
  moreover have "ccxt_is_visible ccxt hwmon_temp attr channel = 0" if "ccxt_reachable ccxt"
    using temp_cnct_reachable [OF that] by (simp add: ccxt_is_visible_def test_bit_def)
  ultimately show ?thesis
    by (simp add: temp_cnct_step temp_cnct_reachable)
qed

theorem temp_entries_hidden_witness:
  "ccxt_reachable (ccxt_step (hid_reply inventory_payload) Op_get_temp_cnct ccxt_zero)
   \<and> ccxt_is_visible (ccxt_step (hid_reply inventory_payload) Op_get_temp_cnct ccxt_zero)
        hwmon_temp hwmon_temp_input 0 = 0
   \<and> ccxt_is_visible (ccxt_step (hid_reply inventory_payload) Op_get_temp_cnct ccxt_zero)
        hwmon_temp hwmon_temp_label 1 = 0"
proof -
  have "ccxt_initial ccxt_zero"
    by (simp add: ccxt_initial_def ccxt_wf_zero) (simp add: ccxt_zero_def NUM_FANS_def)
  then have r: "ccxt_reachable (ccxt_step (hid_reply inventory_payload) Op_get_temp_cnct ccxt_zero)"
    by (intro ccxt_reachable.step ccxt_reachable.init)
  from r temp_entries_hidden [of "hid_reply inventory_payload"
      "ccxt_step (hid_reply inventory_payload) Op_get_temp_cnct ccxt_zero" Op_get_temp_cnct
      hwmon_temp_input 0]
    temp_entries_hidden [of "hid_reply inventory_payload"
      "ccxt_step (hid_reply inventory_payload) Op_get_temp_cnct ccxt_zero" Op_get_temp_cnct
      hwmon_temp_label 1]
  show ?thesis
    by blast
qed

subsection \<open>PWM write path\<close>

text \<open>The frames of a set-speed write transaction.\<close>

lemma prepare_write_cmd_set_speed:
  assumes "length (cmd_buffer c) = OUT_BUFFER_SIZE"
  shows "cmd_buffer (prepare_write_cmd c data_type_set_speed [p0, p1, p2, p3, p4]) =
           [0x00, 0x08, 0x06, 0x01, 0x07, 0x00, 0x00, 0x00, 0x07, 0x00, p0, p1, p2, p3, p4]
           @ replicate 370 0"
proof -
  have fits: "CMD_HEADER_SIZE + length cmd_write \<le> OUT_BUFFER_SIZE"
    by (simp add: CMD_HEADER_SIZE_def cmd_write_def OUT_BUFFER_SIZE_def)
  have split: "replicate 381 (0::u8) = replicate 11 0 @ replicate 370 0"
    by (simp add: replicate_add [symmetric])
  have buf: "cmd_buffer (snd (prepare_cmd c cmd_write)) =
      [0x00, 0x08, 0x06, 0x01, 0, 0, 0, 0, 0, 0, 0, 0, 0, 0, 0] @ replicate 370 0"
    using cmd_buffer_prepare_cmd [OF assms fits]
    by (simp add: cmd_write_def OUT_BUFFER_SIZE_def split) (simp add: numeral_eq_Suc)
  have ret: "fst (prepare_cmd c cmd_write) = 4"
    by (simp add: prepare_cmd_def Let_def CMD_HEADER_SIZE_def cmd_write_def)
  show ?thesis
    by (simp add: prepare_write_cmd_def split_beta Let_def buf ret data_type_set_speed_def
        WRITE_DATA_HEADER_SIZE_def memcpy_def)
qed

lemma cmd_buffer_close_open:
  assumes "length (cmd_buffer c) = OUT_BUFFER_SIZE"
  shows "cmd_buffer (snd (prepare_endpoint_cmd c cmd_close_endpoint e)) =
           [0x00, 0x08, 0x05, 0x01, 0x01, e] @ replicate 379 0"
    and "cmd_buffer (snd (prepare_endpoint_cmd c cmd_open_endpoint e)) =
           [0x00, 0x08, 0x0d, 0x01, e] @ replicate 380 0"
  using cmd_buffer_prepare_endpoint_cmd [OF assms, of cmd_close_endpoint e]
    cmd_buffer_prepare_endpoint_cmd [OF assms, of cmd_open_endpoint e]
  by (simp_all add: cmd_close_endpoint_def cmd_open_endpoint_def CMD_HEADER_SIZE_def
      OUT_BUFFER_SIZE_def)

lemma write_data_success_sent:
  assumes "length (cmd_buffer ccxt) = OUT_BUFFER_SIZE"
    and "fst (write_data hid ccxt e data_type_set_speed [p0, p1, p2, p3, p4]) = 0"
  shows "sent (snd (write_data hid ccxt e data_type_set_speed [p0, p1, p2, p3, p4])) =
           [[0x00, 0x08, 0x05, 0x01, 0x01, e] @ replicate 379 0,
            [0x00, 0x08, 0x06, 0x01, 0x07, 0x00, 0x00, 0x00, 0x07, 0x00, p0, p1, p2, p3, p4]
              @ replicate 370 0,
            [0x00, 0x08, 0x0d, 0x01, e] @ replicate 380 0,
            [0x00, 0x08, 0x05, 0x01, 0x01, e] @ replicate 379 0] @ sent ccxt"
proof -
  let ?d = "[p0, p1, p2, p3, p4]"
  define x1 where "x1 = send_usb hid (snd (prepare_endpoint_cmd ccxt cmd_close_endpoint e))"
  define x2 where "x2 = send_usb hid (snd (prepare_endpoint_cmd (snd x1) cmd_open_endpoint e))"
  define x3 where "x3 = send_usb hid (prepare_write_cmd (snd x2) data_type_set_speed ?d)"
  define c7 where "c7 = (snd x3)\<lparr>data_buffer :=
      memcpy (data_buffer (snd x3)) 0 (buffer (snd x3)) IN_BUFFER_SIZE\<rparr>"
  define x4 where "x4 = send_usb hid (snd (prepare_endpoint_cmd c7 cmd_close_endpoint e))"
  have wr: "write_data hid ccxt e data_type_set_speed ?d =
      (if fst x1 \<noteq> 0 then x1 else if fst x2 \<noteq> 0 then x2 else if fst x3 \<noteq> 0 then x3 else x4)"
    by (simp add: write_data_steps Let_def x1_def x2_def x3_def c7_def x4_def)
  from assms(2) have ok: "fst x1 = 0" "fst x2 = 0" "fst x3 = 0"
    unfolding wr by (auto split: if_splits)
  then have res: "write_data hid ccxt e data_type_set_speed ?d = x4"
    by (simp add: wr)
  have l1: "length (cmd_buffer (snd x1)) = OUT_BUFFER_SIZE"
    by (simp add: x1_def cmd_buffer_close_open [OF assms(1)] OUT_BUFFER_SIZE_def)
  have l2: "length (cmd_buffer (snd x2)) = OUT_BUFFER_SIZE"
    by (simp add: x2_def cmd_buffer_close_open [OF l1] OUT_BUFFER_SIZE_def)
  have l3: "length (cmd_buffer (snd x3)) = OUT_BUFFER_SIZE"
    by (simp add: x3_def prepare_write_cmd_set_speed [OF l2] OUT_BUFFER_SIZE_def)
  have l7: "length (cmd_buffer c7) = OUT_BUFFER_SIZE"
    using l3 by (simp add: c7_def)
  have s1: "sent (snd x1) = ([0x00, 0x08, 0x05, 0x01, 0x01, e] @ replicate 379 0) # sent ccxt"
    by (simp add: x1_def cmd_buffer_close_open [OF assms(1)] OUT_BUFFER_SIZE_def)
  have s2: "sent (snd x2) = ([0x00, 0x08, 0x0d, 0x01, e] @ replicate 380 0) # sent (snd x1)"
    by (simp add: x2_def cmd_buffer_close_open [OF l1] OUT_BUFFER_SIZE_def)
  have s3: "sent (snd x3) =
      ([0x00, 0x08, 0x06, 0x01, 0x07, 0x00, 0x00, 0x00, 0x07, 0x00, p0, p1, p2, p3, p4]
        @ replicate 370 0) # sent (snd x2)"
    by (simp add: x3_def prepare_write_cmd_set_speed [OF l2] OUT_BUFFER_SIZE_def)
  have s7: "sent c7 = sent (snd x3)"
    by (simp add: c7_def)
  have s4: "sent (snd x4) = ([0x00, 0x08, 0x05, 0x01, 0x01, e] @ replicate 379 0) # sent c7"
    by (simp add: x4_def cmd_buffer_close_open [OF l7] OUT_BUFFER_SIZE_def)
  show ?thesis
    by (simp only: res s4 s7 s3 s2 s1) simp
qed


lemma write_data_hid_reply:
  assumes "length data = 384" and "data ! 0 = 0" and "length (buffer c) = 384"
  shows "fst (write_data (hid_reply data) c e dt d) = 0"
  using assms
  by (simp add: write_data_steps Let_def send_usb_hid_reply)

text \<open>
  C8. For a value below 0 or above 255 \<^verbatim>\<open>set_pwm\<close> returns \<open>-EINVAL\<close> and leaves the
  device, the log of output reports included, as it was. For a value in \<open>0..255\<close> it
  rescales the value to \<open>0..100\<close> by rounding \<open>val * 100 / 255\<close> to nearest, runs the write
  transaction on the fan-pwm endpoint with the set-speed tag and the payload
  \<open>1, channel, 0, scaled, 0\<close>, and returns the transaction's result; when that result is 0
  the channel's cached target becomes \<open>-ENODATA\<close>, and otherwise the cached targets are
  unchanged. On success the four output reports are the close, open, write and close
  frames, the write frame carrying the length byte 7, the tag and the payload.
\<close>

theorem set_pwm_behaviour:
  "(val < 0 \<or> 255 < val \<longrightarrow> set_pwm hid ccxt channel val = (- EINVAL, ccxt))
   \<and> (0 \<le> val \<and> val \<le> 255 \<longrightarrow>
        (let scaled = (nat val * 100 + 127) div 255;
             speed_cmd = [1, of_nat channel, 0, of_nat scaled, 0];
             wr = write_data hid ccxt endpoint_fan_pwm data_type_set_speed speed_cmd;
             result = set_pwm hid ccxt channel val
         in scaled \<le> 100
          \<and> fst result = fst wr
          \<and> (fst wr = 0 \<longrightarrow>
                snd result = (snd wr)\<lparr>target := (target ccxt)[channel := - ENODATA]\<rparr>)
          \<and> (fst wr \<noteq> 0 \<longrightarrow> snd result = snd wr \<and> target (snd result) = target ccxt)
          \<and> (fst wr = 0 \<and> length (cmd_buffer ccxt) = 385 \<longrightarrow>
                sent (snd result) =
                  [[0x00, 0x08, 0x05, 0x01, 0x01, 0x18] @ replicate 379 0,
                   [0x00, 0x08, 0x06, 0x01, 0x07, 0x00, 0x00, 0x00, 0x07, 0x00,
                    1, of_nat channel, 0, of_nat scaled, 0] @ replicate 370 0,
                   [0x00, 0x08, 0x0d, 0x01, 0x18] @ replicate 380 0,
                   [0x00, 0x08, 0x05, 0x01, 0x01, 0x18] @ replicate 379 0] @ sent ccxt)))"
proof (intro conjI impI)
  assume "val < 0 \<or> 255 < val"
  then show "set_pwm hid ccxt channel val = (- EINVAL, ccxt)"
    by (auto simp add: set_pwm_def)
next
  assume range: "0 \<le> val \<and> val \<le> 255"
  define scaled where "scaled = (nat val * 100 + 127) div 255"
  define speed_cmd :: "u8 list" where "speed_cmd = [1, of_nat channel, 0, of_nat scaled, 0]"
  define wr where "wr = write_data hid ccxt endpoint_fan_pwm data_type_set_speed speed_cmd"
  have "DIV_ROUND_CLOSEST (val * 100) 255 = (val * 100 + 127) div 255"
    using range by (simp add: DIV_ROUND_CLOSEST_nonneg)
  also have "\<dots> = int scaled"
    using range by (simp add: scaled_def zdiv_int)
  finally have drc: "DIV_ROUND_CLOSEST (val * 100) 255 = int scaled" .
  have bound: "scaled \<le> 100"
  proof -
    have "nat val \<le> 255"
      using range by linarith
    then have "nat val * 100 + 127 < 101 * 255"
      by simp
    then have "scaled < 101"
      unfolding scaled_def by (simp only: less_mult_imp_div_less)
    then show ?thesis
      by simp
  qed
  have res: "set_pwm hid ccxt channel val =
      (if fst wr = 0 then (fst wr, (snd wr)\<lparr>target := (target (snd wr))[channel := - ENODATA]\<rparr>)
       else (fst wr, snd wr))"
    using range
    by (simp add: set_pwm_def Let_def split_beta drc wr_def speed_cmd_def)
  have tgt: "target (snd wr) = target ccxt"
    by (simp add: wr_def)
  have log: "sent (snd wr) =
      [[0x00, 0x08, 0x05, 0x01, 0x01, 0x18] @ replicate 379 0,
       [0x00, 0x08, 0x06, 0x01, 0x07, 0x00, 0x00, 0x00, 0x07, 0x00,
        1, of_nat channel, 0, of_nat scaled, 0] @ replicate 370 0,
       [0x00, 0x08, 0x0d, 0x01, 0x18] @ replicate 380 0,
       [0x00, 0x08, 0x05, 0x01, 0x01, 0x18] @ replicate 379 0] @ sent ccxt"
    if "fst wr = 0" "length (cmd_buffer ccxt) = 385"
    using that write_data_success_sent [of ccxt hid endpoint_fan_pwm 1 "of_nat channel" 0
        "of_nat scaled" 0]
    by (simp add: wr_def speed_cmd_def OUT_BUFFER_SIZE_def endpoint_fan_pwm_def)
  show "let scaled = (nat val * 100 + 127) div 255;
            speed_cmd = [1, of_nat channel, 0, of_nat scaled, 0];
            wr = write_data hid ccxt endpoint_fan_pwm data_type_set_speed speed_cmd;
            result = set_pwm hid ccxt channel val
        in scaled \<le> 100
         \<and> fst result = fst wr
         \<and> (fst wr = 0 \<longrightarrow>
               snd result = (snd wr)\<lparr>target := (target ccxt)[channel := - ENODATA]\<rparr>)
         \<and> (fst wr \<noteq> 0 \<longrightarrow> snd result = snd wr \<and> target (snd result) = target ccxt)
         \<and> (fst wr = 0 \<and> length (cmd_buffer ccxt) = 385 \<longrightarrow>
               sent (snd result) =
                 [[0x00, 0x08, 0x05, 0x01, 0x01, 0x18] @ replicate 379 0,
                  [0x00, 0x08, 0x06, 0x01, 0x07, 0x00, 0x00, 0x00, 0x07, 0x00,
                   1, of_nat channel, 0, of_nat scaled, 0] @ replicate 370 0,
                  [0x00, 0x08, 0x0d, 0x01, 0x18] @ replicate 380 0,
                  [0x00, 0x08, 0x05, 0x01, 0x01, 0x18] @ replicate 379 0] @ sent ccxt)"
    using bound log res tgt
    unfolding Let_def wr_def speed_cmd_def scaled_def
    by simp
qed

theorem set_pwm_behaviour_witness:
  "set_pwm (hid_reply (replicate 384 0)) ccxt_zero 2 256 = (- EINVAL, ccxt_zero)
   \<and> set_pwm (hid_reply (replicate 384 0)) ccxt_zero 2 (- 1) = (- EINVAL, ccxt_zero)
   \<and> fst (set_pwm (hid_reply (replicate 384 0)) ccxt_zero 2 128) = 0
   \<and> target (snd (set_pwm (hid_reply (replicate 384 0)) ccxt_zero 2 128)) =
        [0, 0, - ENODATA, 0, 0, 0]
   \<and> sent (snd (set_pwm (hid_reply (replicate 384 0)) ccxt_zero 2 128)) =
        [[0x00, 0x08, 0x05, 0x01, 0x01, 0x18] @ replicate 379 0,
         [0x00, 0x08, 0x06, 0x01, 0x07, 0x00, 0x00, 0x00, 0x07, 0x00, 1, 2, 0, 50, 0]
           @ replicate 370 0,
         [0x00, 0x08, 0x0d, 0x01, 0x18] @ replicate 380 0,
         [0x00, 0x08, 0x05, 0x01, 0x01, 0x18] @ replicate 379 0]
   \<and> fst (set_pwm (hid_silent_after 0 []) ccxt_zero 2 128) = - ETIMEDOUT
   \<and> target (snd (set_pwm (hid_silent_after 0 []) ccxt_zero 2 128)) = target ccxt_zero"
proof -
  let ?H = "hid_reply (replicate 384 (0::u8))"
  have z: "length (buffer ccxt_zero) = 384" "length (cmd_buffer ccxt_zero) = 385"
      "sent ccxt_zero = []" "target ccxt_zero = [0, 0, 0, 0, 0, 0]"
    by (simp_all add: ccxt_zero_def numeral_eq_Suc)
  have d: "length (replicate 384 (0::u8)) = 384" "replicate 384 (0::u8) ! 0 = 0"
    by simp_all
  have sc: "(128 * 100 + 127) div 255 = (50::nat)"
    by simp
  have ok: "fst (write_data ?H ccxt_zero endpoint_fan_pwm data_type_set_speed [1, 2, 0, 50, 0]) = 0"
    by (rule write_data_hid_reply [OF d z(1)])
  have bad: "fst (write_data (hid_silent_after 0 []) ccxt_zero endpoint_fan_pwm
      data_type_set_speed [1, 2, 0, 50, 0]) = - ETIMEDOUT"
    by (simp add: write_data_steps Let_def send_usb_silent_after_timeout ETIMEDOUT_def)
  have w1: "set_pwm ?H ccxt_zero 2 256 = (- EINVAL, ccxt_zero)"
    using set_pwm_behaviour [of 256 ?H ccxt_zero 2] by simp
  have w2: "set_pwm ?H ccxt_zero 2 (- 1) = (- EINVAL, ccxt_zero)"
    using set_pwm_behaviour [of "- 1" ?H ccxt_zero 2] by simp
  have w3: "fst (set_pwm ?H ccxt_zero 2 128) = 0
      \<and> target (snd (set_pwm ?H ccxt_zero 2 128)) = [0, 0, - ENODATA, 0, 0, 0]"
    using set_pwm_behaviour [of 128 ?H ccxt_zero 2] ok
    by (simp add: Let_def sc z)
  have w3s: "sent (snd (set_pwm ?H ccxt_zero 2 128)) =
      [[0x00, 0x08, 0x05, 0x01, 0x01, 0x18] @ replicate 379 0,
       [0x00, 0x08, 0x06, 0x01, 0x07, 0x00, 0x00, 0x00, 0x07, 0x00, 1, 2, 0, 50, 0]
         @ replicate 370 0,
       [0x00, 0x08, 0x0d, 0x01, 0x18] @ replicate 380 0,
       [0x00, 0x08, 0x05, 0x01, 0x01, 0x18] @ replicate 379 0]"
    using set_pwm_behaviour [of 128 ?H ccxt_zero 2] ok
    by (simp (no_asm_use) add: Let_def sc z) blast
  have w4: "fst (set_pwm (hid_silent_after 0 []) ccxt_zero 2 128) = - ETIMEDOUT
      \<and> target (snd (set_pwm (hid_silent_after 0 []) ccxt_zero 2 128)) = target ccxt_zero"
    using set_pwm_behaviour [of 128 "hid_silent_after 0 []" ccxt_zero 2] bad
    by (simp add: Let_def sc ETIMEDOUT_def)
  from w1 w2 w3 w3s w4 show ?thesis
    by blast
qed

subsection \<open>PWM round trip\<close>

text \<open>
  The value byte \<^verbatim>\<open>set_pwm\<close> puts on the wire and the value \<^verbatim>\<open>get_fan_pwm\<close> decodes
  from a payload.
\<close>

lemma set_pwm_success_sent_byte:
  assumes "0 \<le> val" and "val \<le> 255"
    and "length (cmd_buffer ccxt) = OUT_BUFFER_SIZE"
    and "fst (set_pwm hid ccxt channel val) = 0"
  shows "sent (snd (set_pwm hid ccxt channel val)) ! 1 ! 13 =
           word_of_int (DIV_ROUND_CLOSEST (val * 100) 255)"
proof -
  define b :: u8 where "b = word_of_int (DIV_ROUND_CLOSEST (val * 100) 255)"
  define wr where
    "wr = write_data hid ccxt endpoint_fan_pwm data_type_set_speed [1, of_nat channel, 0, b, 0]"
  have res: "set_pwm hid ccxt channel val =
      (if fst wr = 0 then (fst wr, (snd wr)\<lparr>target := (target (snd wr))[channel := - ENODATA]\<rparr>)
       else (fst wr, snd wr))"
    using assms(1,2) by (simp add: set_pwm_def Let_def split_beta wr_def b_def)
  from assms(4) have ok: "fst wr = 0"
    unfolding res by (simp split: if_splits)
  have "sent (snd (set_pwm hid ccxt channel val)) = sent (snd wr)"
    by (simp add: res ok)
  also have "\<dots> ! 1 ! 13 = b"
    using write_data_success_sent [OF assms(3), of hid endpoint_fan_pwm 1 "of_nat channel" 0 b 0] ok
    by (simp add: wr_def)
  finally show ?thesis
    by (simp only: b_def)
qed

lemma get_fan_pwm_value:
  assumes "fst (read_data hid ccxt endpoint_fan_pwm) = 0"
    and "channel < min (unat (data_buffer (snd (read_data hid ccxt endpoint_fan_pwm)) ! 5)) 6"
    and "unat (data_buffer (snd (read_data hid ccxt endpoint_fan_pwm)) ! (6 + channel * 4)) = channel"
  shows "fst (get_fan_pwm hid ccxt channel) = 0"
    and "fst (snd (get_fan_pwm hid ccxt channel)) =
           Some (DIV_ROUND_CLOSEST
             (uint (data_buffer (snd (read_data hid ccxt endpoint_fan_pwm)) ! (6 + channel * 4 + 2))
              * 255) 100)"
proof -
  define payload where "payload = data_buffer (snd (read_data hid ccxt endpoint_fan_pwm))"
  have valid: "\<not> min (unat (payload ! 5)) 6 \<le> channel"
    using assms(2) unfolding payload_def by (simp only: not_le)
  have id: "uint (payload ! (6 + channel * 4)) = int channel"
    using assms(3) unfolding payload_def by (simp only: uint_nat)
  show "fst (get_fan_pwm hid ccxt channel) = 0"
    using assms(1) valid id
    by (simp add: get_fan_pwm_def split_beta Let_def payload_def [symmetric]
        FAN_CNT_INDEX_def NUM_FANS_def FAN_DATA_OFFSET_def del: min_le_iff_disj)
  show "fst (snd (get_fan_pwm hid ccxt channel)) =
      Some (DIV_ROUND_CLOSEST
        (uint (data_buffer (snd (read_data hid ccxt endpoint_fan_pwm)) ! (6 + channel * 4 + 2))
         * 255) 100)"
    using assms(1) valid id
    by (simp add: get_fan_pwm_def split_beta Let_def payload_def [symmetric]
        FAN_CNT_INDEX_def NUM_FANS_def FAN_DATA_OFFSET_def del: min_le_iff_disj)
qed

lemma set_pwm_hid_reply:
  assumes "0 \<le> val" and "val \<le> 255"
    and "length data = 384" and "data ! 0 = 0" and "length (buffer c) = 384"
  shows "fst (set_pwm (hid_reply data) c channel val) = 0"
  using assms(1,2) write_data_hid_reply [OF assms(3,4,5)]
  by (simp add: set_pwm_def Let_def split_beta)

lemma pwm_reply_bytes:
  "length (pwm_reply b) = 384" "pwm_reply b ! 0 = 0" "pwm_reply b ! 5 = 1"
  "pwm_reply b ! 6 = 0" "pwm_reply b ! 8 = b"
  by (simp_all add: pwm_reply_def)

text \<open>
  C4. For \<open>0 \<le> v \<le> 255\<close>: when \<^verbatim>\<open>set_pwm\<close> succeeds with the value \<open>v\<close>, the value
  byte of the write frame it transmits (offset 13 of the second newest output report) is
  \<open>v * 100 / 255\<close> rounded to nearest; and when a fan-pwm read delivers a payload that
  echoes the channel and carries that byte as the channel's value, \<^verbatim>\<open>get_fan_pwm\<close>
  returns 0 with the byte \<open>* 255 / 100\<close> rounded to nearest, which is within 1 of \<open>v\<close>.
\<close>

theorem pwm_round_trip:
  assumes "0 \<le> v" and "v \<le> 255"
    and "length (cmd_buffer ccxt) = 385"
    and "fst (set_pwm hid ccxt channel v) = 0"
    and "fst (read_data hid2 ccxt2 endpoint_fan_pwm) = 0"
    and "channel < min (unat (data_buffer (snd (read_data hid2 ccxt2 endpoint_fan_pwm)) ! 5)) 6"
    and "unat (data_buffer (snd (read_data hid2 ccxt2 endpoint_fan_pwm)) ! (6 + channel * 4))
           = channel"
    and "data_buffer (snd (read_data hid2 ccxt2 endpoint_fan_pwm)) ! (6 + channel * 4 + 2)
           = sent (snd (set_pwm hid ccxt channel v)) ! 1 ! 13"
  shows "sent (snd (set_pwm hid ccxt channel v)) ! 1 ! 13 = of_nat ((nat v * 100 + 127) div 255)
       \<and> fst (get_fan_pwm hid2 ccxt2 channel) = 0
       \<and> fst (snd (get_fan_pwm hid2 ccxt2 channel)) =
           Some (int ((((nat v * 100 + 127) div 255) * 255 + 50) div 100))
       \<and> \<bar>int ((((nat v * 100 + 127) div 255) * 255 + 50) div 100) - v\<bar> \<le> 1"
proof -
  define s where "s = (nat v * 100 + 127) div 255"
  define b :: u8 where "b = word_of_int (DIV_ROUND_CLOSEST (v * 100) 255)"
  have cb: "length (cmd_buffer ccxt) = OUT_BUFFER_SIZE"
    using assms(3) by (simp add: OUT_BUFFER_SIZE_def)
  have wire: "sent (snd (set_pwm hid ccxt channel v)) ! 1 ! 13 = b"
    unfolding b_def by (rule set_pwm_success_sent_byte [OF assms(1,2) cb assms(4)])
  have "DIV_ROUND_CLOSEST (v * 100) 255 = (v * 100 + 127) div 255"
    using assms(1) by (simp add: DIV_ROUND_CLOSEST_nonneg)
  also have "\<dots> = int s"
    using assms(1) by (simp add: s_def zdiv_int)
  finally have drc: "DIV_ROUND_CLOSEST (v * 100) 255 = int s" .
  then have b_s: "b = of_nat s"
    by (simp add: b_def)
  have near: "\<bar>DIV_ROUND_CLOSEST (uint b * 255) 100 - v\<bar> \<le> 1"
    unfolding b_def by (rule pwm_rescale_within_one [OF assms(1,2)])
  have "nat v \<le> 255"
    using assms(2) by linarith
  then have "nat v * 100 + 127 < 101 * 255"
    by simp
  then have "s < 101"
    unfolding s_def by (simp only: less_mult_imp_div_less)
  then have "unat (of_nat s :: u8) = s"
    by (simp add: unat_of_nat)
  then have us: "uint b = int s"
    by (simp only: uint_nat b_s)
  have scaled_back: "DIV_ROUND_CLOSEST (uint b * 255) 100 = int ((s * 255 + 50) div 100)"
  proof -
    have "DIV_ROUND_CLOSEST (uint b * 255) 100 = (int s * 255 + 50) div 100"
      by (simp add: us DIV_ROUND_CLOSEST_nonneg)
    also have "\<dots> = int ((s * 255 + 50) div 100)"
      by (simp only: zdiv_int of_nat_add of_nat_mult of_nat_numeral)
    finally show ?thesis .
  qed
  have got: "fst (snd (get_fan_pwm hid2 ccxt2 channel)) = Some (int ((s * 255 + 50) div 100))"
    using get_fan_pwm_value(2) [OF assms(5,6,7)] by (simp only: assms(8) wire scaled_back)
  have ret: "fst (get_fan_pwm hid2 ccxt2 channel) = 0"
    by (rule get_fan_pwm_value(1) [OF assms(5,6,7)])
  from near have "\<bar>int ((s * 255 + 50) div 100) - v\<bar> \<le> 1"
    by (simp only: scaled_back)
  with wire b_s ret got show ?thesis
    unfolding s_def by simp
qed

theorem pwm_round_trip_witness:
  "sent (snd (set_pwm (hid_reply (replicate 384 0)) ccxt_zero 0 0)) ! 1 ! 13 = 0
   \<and> fst (snd (get_fan_pwm (hid_reply (pwm_reply 0)) ccxt_zero 0)) = Some 0
   \<and> sent (snd (set_pwm (hid_reply (replicate 384 0)) ccxt_zero 0 1)) ! 1 ! 13 = 0
   \<and> sent (snd (set_pwm (hid_reply (replicate 384 0)) ccxt_zero 0 127)) ! 1 ! 13 = 50
   \<and> sent (snd (set_pwm (hid_reply (replicate 384 0)) ccxt_zero 0 128)) ! 1 ! 13 = 50
   \<and> fst (snd (get_fan_pwm (hid_reply (pwm_reply 50)) ccxt_zero 0)) = Some 128
   \<and> sent (snd (set_pwm (hid_reply (replicate 384 0)) ccxt_zero 0 254)) ! 1 ! 13 = 100
   \<and> sent (snd (set_pwm (hid_reply (replicate 384 0)) ccxt_zero 0 255)) ! 1 ! 13 = 100
   \<and> fst (snd (get_fan_pwm (hid_reply (pwm_reply 100)) ccxt_zero 0)) = Some 255"
proof -
  let ?H = "hid_reply (replicate 384 (0::u8))"
  have z: "length (buffer ccxt_zero) = 384" "length (data_buffer ccxt_zero) = 384"
    by (simp_all add: ccxt_zero_def)
  have zc: "length (cmd_buffer ccxt_zero) = 385" "length (cmd_buffer ccxt_zero) = OUT_BUFFER_SIZE"
    by (simp_all add: ccxt_zero_def OUT_BUFFER_SIZE_def)
  have d: "length (replicate 384 (0::u8)) = 384" "replicate 384 (0::u8) ! 0 = 0"
    by simp_all
  have trip: "sent (snd (set_pwm ?H ccxt_zero 0 v)) ! 1 ! 13 = of_nat ((nat v * 100 + 127) div 255)
      \<and> fst (snd (get_fan_pwm (hid_reply (pwm_reply b)) ccxt_zero 0)) =
          Some (int ((((nat v * 100 + 127) div 255) * 255 + 50) div 100))"
    if v: "0 \<le> v" "v \<le> 255" and b: "b = word_of_int (DIV_ROUND_CLOSEST (v * 100) 255)" for v b
  proof -
    have h4: "fst (set_pwm ?H ccxt_zero 0 v) = 0"
      by (rule set_pwm_hid_reply [OF v d z(1)])
    have h5: "fst (read_data (hid_reply (pwm_reply b)) ccxt_zero endpoint_fan_pwm) = 0"
      and p: "data_buffer (snd (read_data (hid_reply (pwm_reply b)) ccxt_zero endpoint_fan_pwm))
          = pwm_reply b"
      using read_data_hid_reply [OF pwm_reply_bytes(1,2) z] by simp_all
    have h6: "0 < min (unat (data_buffer (snd (read_data (hid_reply (pwm_reply b)) ccxt_zero
        endpoint_fan_pwm)) ! 5)) 6"
      by (simp add: p pwm_reply_bytes)
    have h7: "unat (data_buffer (snd (read_data (hid_reply (pwm_reply b)) ccxt_zero
        endpoint_fan_pwm)) ! (6 + 0 * 4)) = 0"
      by (simp add: p pwm_reply_bytes)
    have h8: "data_buffer (snd (read_data (hid_reply (pwm_reply b)) ccxt_zero
        endpoint_fan_pwm)) ! (6 + 0 * 4 + 2) = sent (snd (set_pwm ?H ccxt_zero 0 v)) ! 1 ! 13"
    proof -
      have "data_buffer (snd (read_data (hid_reply (pwm_reply b)) ccxt_zero
          endpoint_fan_pwm)) ! (6 + 0 * 4 + 2) = b"
        by (simp add: p pwm_reply_bytes)
      also have "b = sent (snd (set_pwm ?H ccxt_zero 0 v)) ! 1 ! 13"
        using set_pwm_success_sent_byte [OF v zc(2) h4] by (simp only: b)
      finally show ?thesis .
    qed
    from pwm_round_trip [OF v zc(1) h4 h5 h6 h7 h8] show ?thesis
      by blast
  qed
  have s: "(0 * 100 + 127) div 255 = (0::nat)" "(1 * 100 + 127) div 255 = (0::nat)"
      "(127 * 100 + 127) div 255 = (50::nat)" "(128 * 100 + 127) div 255 = (50::nat)"
      "(254 * 100 + 127) div 255 = (100::nat)" "(255 * 100 + 127) div 255 = (100::nat)"
    by simp_all
  have t0: "sent (snd (set_pwm ?H ccxt_zero 0 0)) ! 1 ! 13 = 0
      \<and> fst (snd (get_fan_pwm (hid_reply (pwm_reply 0)) ccxt_zero 0)) = Some 0"
    using trip [of 0 0] by (simp add: DIV_ROUND_CLOSEST_nonneg)
  have t1: "sent (snd (set_pwm ?H ccxt_zero 0 1)) ! 1 ! 13 = 0"
    using trip [of 1 0] by (simp add: DIV_ROUND_CLOSEST_nonneg)
  have t127: "sent (snd (set_pwm ?H ccxt_zero 0 127)) ! 1 ! 13 = 50"
    using trip [of 127 50] by (simp add: DIV_ROUND_CLOSEST_nonneg)
  have t128: "sent (snd (set_pwm ?H ccxt_zero 0 128)) ! 1 ! 13 = 50
      \<and> fst (snd (get_fan_pwm (hid_reply (pwm_reply 50)) ccxt_zero 0)) = Some 128"
    using trip [of 128 50] by (simp add: DIV_ROUND_CLOSEST_nonneg)
  have t254: "sent (snd (set_pwm ?H ccxt_zero 0 254)) ! 1 ! 13 = 100"
    using trip [of 254 100] by (simp add: DIV_ROUND_CLOSEST_nonneg)
  have t255: "sent (snd (set_pwm ?H ccxt_zero 0 255)) ! 1 ! 13 = 100
      \<and> fst (snd (get_fan_pwm (hid_reply (pwm_reply 100)) ccxt_zero 0)) = Some 255"
    using trip [of 255 100] by (simp add: DIV_ROUND_CLOSEST_nonneg)
  from t0 t1 t127 t128 t254 t255 show ?thesis
    by blast
qed

end
